theory Spec2Isabelle
  imports
    Complex_Main
    "HOL-Library.Char_ord"
    "HOL-Library.List_Lexorder"
    "HOL-Library.Sublist"
    "HOL-Library.AList"
begin

section \<open>Strings, numbers and dynamically typed values\<close>

text \<open>
  A JavaScript string is modelled as a \<^typ>\<open>string\<close>: a list of characters, each
  standing for one code unit below 256. Strings are compared lexicographically on the
  character codes (a proper prefix is smaller), which is what \<open>HOL-Library.List_Lexorder\<close>
  over \<open>HOL-Library.Char_ord\<close> provides. JavaScript numbers are modelled as \<^typ>\<open>int\<close>
  where the handlers compute with them (lengths, counts, millisecond timestamps, day
  offsets given as whole days) and as \<^typ>\<open>rat\<close> where they are only passed along
  (relevance scores).
\<close>

text \<open>\<open>a.includes(b)\<close>: \<open>b\<close> occurs in \<open>a\<close> as a contiguous run.\<close>

fun str_includes :: "string \<Rightarrow> string \<Rightarrow> bool" where
  "str_includes [] sub = (sub = [])"
| "str_includes (c # cs) sub = (prefix sub (c # cs) \<or> str_includes cs sub)"

text \<open>\<open>\s\<close> of a JavaScript regular expression, on code units below 256.\<close>

definition is_space :: "char \<Rightarrow> bool" where
  "is_space c = (of_char c \<in> {9, 10, 11, 12, 13, 32, 160 :: nat})"

text \<open>\<open>\w\<close> of a JavaScript regular expression: \<open>[A-Za-z0-9_]\<close>.\<close>

definition is_word_char :: "char \<Rightarrow> bool" where
  "is_word_char c =
     (let n = of_char c :: nat in
      (48 \<le> n \<and> n \<le> 57) \<or> (65 \<le> n \<and> n \<le> 90) \<or> (97 \<le> n \<and> n \<le> 122) \<or> n = 95)"

text \<open>
  \<open>toLowerCase\<close>: the upper-case letters below 256 are \<open>A\<close>-\<open>Z\<close> and \<open>0xC0\<close>-\<open>0xDE\<close>
  without \<open>0xD7\<close>; their lower-case forms are 32 higher, that is, bit 5 set.
\<close>

definition toLowerCase_char :: "char \<Rightarrow> char" where
  "toLowerCase_char c =
     (let n = of_char c :: nat in
      if (65 \<le> n \<and> n \<le> 90) \<or> (192 \<le> n \<and> n \<le> 222 \<and> n \<noteq> 215)
      then (case c of Char b0 b1 b2 b3 b4 b5 b6 b7 \<Rightarrow> Char b0 b1 b2 b3 b4 True b6 b7)
      else c)"

definition toLowerCase :: "string \<Rightarrow> string" where
  "toLowerCase s = map toLowerCase_char s"

text \<open>\<open>s.trim()\<close>.\<close>

definition trim :: "string \<Rightarrow> string" where
  "trim s = rev (dropWhile is_space (rev (dropWhile is_space s)))"

text \<open>
  \<open>xs.slice(0, n)\<close> on a string or an array: a negative \<open>n\<close> counts from the end.
\<close>

definition slice0 :: "'a list \<Rightarrow> int \<Rightarrow> 'a list" where
  "slice0 xs n = (if n < 0 then take (length xs - nat (- n)) xs else take (nat n) xs)"

text \<open>
  \<open>String(n)\<close> and \<open>n.toString()\<close> of an integer number: its decimal digits, with a
  minus sign when negative (numbers of magnitude \<open>10^21\<close> and more, which JavaScript
  prints with an exponent, do not arise from lengths or millisecond timestamps).
\<close>

fun digits :: "nat \<Rightarrow> string" where
  "digits n =
     (if n < 10 then [''0123456789'' ! n]
      else digits (n div 10) @ [''0123456789'' ! (n mod 10)])"

declare digits.simps [simp del]

definition number_toString :: "int \<Rightarrow> string" where
  "number_toString n = (if n < 0 then ''-'' @ digits (nat (- n)) else digits (nat n))"

text \<open>
  A value of TypeScript type \<open>any\<close>, as far as the handlers produce one: \<open>undefined\<close>,
  \<open>null\<close>, a string, a number or a boolean.
\<close>

datatype js_value = Undefined | Null | JStr string | JNum int | JBool bool

text \<open>\<open>String(v)\<close>.\<close>

fun js_String :: "js_value \<Rightarrow> string" where
  "js_String Undefined = ''undefined''"
| "js_String Null = ''null''"
| "js_String (JStr s) = s"
| "js_String (JNum n) = number_toString n"
| "js_String (JBool b) = (if b then ''true'' else ''false'')"

text \<open>
  Truthiness of an optional string and of an optional number: \<open>undefined\<close>, the empty
  string and \<open>0\<close> are falsy. \<open>or_else a d\<close> is \<open>a || d\<close>.
\<close>

fun truthy_str :: "string option \<Rightarrow> bool" where
  "truthy_str None = False"
| "truthy_str (Some s) = (s \<noteq> [])"

fun truthy_num :: "int option \<Rightarrow> bool" where
  "truthy_num None = False"
| "truthy_num (Some n) = (n \<noteq> 0)"

fun or_else :: "string option \<Rightarrow> string \<Rightarrow> string" where
  "or_else None d = d"
| "or_else (Some s) d = (if s = [] then d else s)"

text \<open>
  A UUID as \<open>crypto.randomUUID()\<close> produces it and as the \<open>uuid\<close> check of the
  \<open>delete_note\<close> schema accepts it: five groups of 8, 4, 4, 4 and 12 hexadecimal digits
  separated by hyphens.
\<close>

definition is_hex :: "char \<Rightarrow> bool" where
  "is_hex c = (c \<in> set ''0123456789abcdefABCDEF'')"

definition is_uuid :: "string \<Rightarrow> bool" where
  "is_uuid s =
     (length s = 36
      \<and> list_all is_hex (take 8 s) \<and> s ! 8 = CHR ''-''
      \<and> list_all is_hex (take 4 (drop 9 s)) \<and> s ! 13 = CHR ''-''
      \<and> list_all is_hex (take 4 (drop 14 s)) \<and> s ! 18 = CHR ''-''
      \<and> list_all is_hex (take 4 (drop 19 s)) \<and> s ! 23 = CHR ''-''
      \<and> list_all is_hex (drop 24 s))"

section \<open>Data types of \<open>types.ts\<close>\<close>

datatype json_scalar = Str string | Num int

text \<open>
  \<open>AutoRAGFilter\<close>: a \<open>type\<close> tag and the optional fields \<open>key\<close>, \<open>value\<close> (a string or
  a number) and \<open>filters\<close>.
\<close>

datatype filter_type = FEq | FNe | FGt | FGte | FLt | FLte | FAnd | FOr

datatype AutoRAGFilter =
  AutoRAGFilter
    (f_type: filter_type)
    (f_key: "string option")
    (f_value: "json_scalar option")
    (f_filters: "AutoRAGFilter list option")

text \<open>\<open>NoteMetadata\<close> and \<open>NoteSidecarData\<close>.\<close>

record NoteMetadata =
  id' :: string
  created_at :: string
  created_timestamp :: int
  title :: string
  note_type :: string
  author :: string
  char_count :: int
  word_count :: int
  version :: int

record NoteSidecarData = NoteMetadata +
  content_preview :: string
  tags :: "string list"
  links :: "string list"

text \<open>
  \<open>AutoRAGSearchResult\<close>. The interface declares \<open>content\<close> a string, the handlers also
  accept an array of chunks with a \<open>text\<close> each; beyond the declared fields the handlers
  read \<open>text\<close> and \<open>enriched_metadata\<close> and add \<open>sidecarMetadata\<close>.
\<close>

datatype result_content = ContentChunks "string option list" | ContentString string

record AutoRAGSearchResult =
  filename :: "string option"
  content :: "result_content option"
  text_field :: "string option"
  score :: "rat option"
  metadata :: "(string \<times> string) list option"
  enriched_metadata :: "js_value"
  sidecarMetadata :: "NoteSidecarData option"

text \<open>\<open>SearchParams\<close> and \<open>AISearchParams\<close> (the two interfaces have the same fields).\<close>

record SearchParams =
  query :: string
  max_num_results :: "int option"
  rewrite_query :: "bool option"
  score_threshold :: "rat option"
  filters :: "AutoRAGFilter option"

text \<open>\<open>AutoRAGSearchResponse\<close> and \<open>AutoRAGAISearchResponse\<close>.\<close>

record AutoRAGSearchResponse =
  object :: string
  search_query :: string
  data :: "AutoRAGSearchResult list"

record AutoRAGAISearchResponse = AutoRAGSearchResponse +
  response :: string

section \<open>The object store and the search service\<close>

text \<open>
  The R2 bucket behind \<open>env.NOTES\<close> is outside the repository. It is modelled as the
  list of its objects by key, together with the requests issued to it so far, and a
  choice of the requests that it rejects (the promise of the call rejects with the given
  message). An object body is either text that is not a JSON document, or the JSON text
  of a sidecar document, kept as the document: \<open>JSON.stringify\<close> and \<open>JSON.parse\<close> are
  not modelled character by character.
\<close>

datatype r2_body = Raw string | SidecarJson NoteSidecarData

record r2_object =
  body :: r2_body
  contentType :: string
  customMetadata :: "(string \<times> string) list"

datatype r2_request =
    R2Head string
  | R2Get string
  | R2Put string r2_body string "(string \<times> js_value) list option"
  | R2Delete string
  | R2List string int

record r2_bucket =
  objects :: "(string \<times> r2_object) list"
  rejects :: "r2_request \<Rightarrow> string option"
  list_sends_metadata :: bool
  issued :: "r2_request list"

text \<open>An entry of a listing: the key and, when the store sends it, the custom metadata.\<close>

record r2_listed =
  listed_key :: string
  listed_customMetadata :: "(string \<times> string) list option"

definition r2_issue :: "r2_bucket \<Rightarrow> r2_request \<Rightarrow> r2_bucket" where
  "r2_issue b req = b\<lparr>issued := issued b @ [req]\<rparr>"

definition r2_head :: "r2_bucket \<Rightarrow> string \<Rightarrow> r2_bucket \<times> (string + r2_object option)" where
  "r2_head b k =
     (r2_issue b (R2Head k),
      case rejects b (R2Head k) of Some e \<Rightarrow> Inl e | None \<Rightarrow> Inr (map_of (objects b) k))"

definition r2_get :: "r2_bucket \<Rightarrow> string \<Rightarrow> r2_bucket \<times> (string + r2_object option)" where
  "r2_get b k =
     (r2_issue b (R2Get k),
      case rejects b (R2Get k) of Some e \<Rightarrow> Inl e | None \<Rightarrow> Inr (map_of (objects b) k))"

text \<open>The store keeps custom metadata as strings.\<close>

definition r2_put ::
  "r2_bucket \<Rightarrow> string \<Rightarrow> r2_body \<Rightarrow> string \<Rightarrow> (string \<times> js_value) list option
     \<Rightarrow> r2_bucket \<times> (string + unit)" where
  "r2_put b k bd ct md =
     (let req = R2Put k bd ct md; b' = r2_issue b req in
      case rejects b req of
        Some e \<Rightarrow> (b', Inl e)
      | None \<Rightarrow>
          (b'\<lparr>objects :=
               AList.update k
                 \<lparr>body = bd, contentType = ct,
                  customMetadata =
                    (case md of None \<Rightarrow> [] | Some m \<Rightarrow> map (\<lambda>(f, v). (f, js_String v)) m)\<rparr>
                 (objects b)\<rparr>,
           Inr ()))"

definition r2_delete :: "r2_bucket \<Rightarrow> string \<Rightarrow> r2_bucket \<times> (string + unit)" where
  "r2_delete b k =
     (let b' = r2_issue b (R2Delete k) in
      case rejects b (R2Delete k) of
        Some e \<Rightarrow> (b', Inl e)
      | None \<Rightarrow> (b'\<lparr>objects := AList.delete k (objects b)\<rparr>, Inr ()))"

text \<open>
  \<open>list({prefix, limit})\<close>: the objects whose key starts with the prefix, in the
  lexicographic order of their keys, at most \<open>limit\<close> of them. The handler does not ask
  for custom metadata with \<open>include\<close>. A worker with a compatibility date from
  2022-08-04 on then gets the keys without the custom metadata
  (\<^const>\<open>list_sends_metadata\<close> is \<open>False\<close>); only for an older worker does the store send
  it all the same.
\<close>

definition r2_list ::
  "r2_bucket \<Rightarrow> string \<Rightarrow> int \<Rightarrow> r2_bucket \<times> (string + r2_listed list)" where
  "r2_list b p cap =
     (r2_issue b (R2List p cap),
      case rejects b (R2List p cap) of
        Some e \<Rightarrow> Inl e
      | None \<Rightarrow>
          Inr (map (\<lambda>(k, ob).
                      \<lparr>listed_key = k,
                       listed_customMetadata =
                         (if list_sends_metadata b then Some (customMetadata ob) else None)\<rparr>)
                 (take (nat cap)
                    (sort_key fst (filter (\<lambda>(k, ob). prefix p k) (objects b))))))"

text \<open>
  The search service behind \<open>env.AI.autorag("notes")\<close> is outside the repository too: its
  two calls are functions from the parameters sent to either a rejection with a message
  or the value the promise resolves to, which is \<open>None\<close> when that value is not an object
  and otherwise an object whose fields may each be missing.
\<close>

record raw_response =
  raw_object :: "string option"
  raw_search_query :: "string option"
  raw_answer :: "string option"
  raw_data :: "AutoRAGSearchResult list option"

record ai_binding =
  search :: "SearchParams \<Rightarrow> string + raw_response option"
  aiSearch :: "SearchParams \<Rightarrow> string + raw_response option"

text \<open>
  What the service does with a filter is, in the words of the specification, the
  lexical-range semantics of the comparison clauses under \<open>and\<close>: an indexed item has
  attributes (\<open>folder\<close>, \<open>timestamp\<close>, ...), a comparison clause holds when the item has
  the attribute and its value compares accordingly with the clause's value (strings
  lexicographically, numbers numerically), \<open>and\<close> holds when every clause does and \<open>or\<close>
  when some clause does.
\<close>

fun compare_scalar :: "filter_type \<Rightarrow> json_scalar \<Rightarrow> json_scalar \<Rightarrow> bool" where
  "compare_scalar FEq a v = (a = v)"
| "compare_scalar FNe a v = (a \<noteq> v)"
| "compare_scalar FGt (Str a) (Str v) = (v < a)"
| "compare_scalar FGt (Num a) (Num v) = (v < a)"
| "compare_scalar FGte (Str a) (Str v) = (v \<le> a)"
| "compare_scalar FGte (Num a) (Num v) = (v \<le> a)"
| "compare_scalar FLt (Str a) (Str v) = (a < v)"
| "compare_scalar FLt (Num a) (Num v) = (a < v)"
| "compare_scalar FLte (Str a) (Str v) = (a \<le> v)"
| "compare_scalar FLte (Num a) (Num v) = (a \<le> v)"
| "compare_scalar _ _ _ = False"

fun filter_matches :: "(string \<rightharpoonup> json_scalar) \<Rightarrow> AutoRAGFilter \<Rightarrow> bool" where
  "filter_matches attrs (AutoRAGFilter t k v fs) =
     (if t = FAnd then
        (case fs of None \<Rightarrow> False | Some l \<Rightarrow> list_all (filter_matches attrs) l)
      else if t = FOr then
        (case fs of None \<Rightarrow> False | Some l \<Rightarrow> list_ex (filter_matches attrs) l)
      else
        (case (k, v) of
           (Some k', Some v') \<Rightarrow>
             (case attrs k' of None \<Rightarrow> False | Some a \<Rightarrow> compare_scalar t a v')
         | _ \<Rightarrow> False))"

text \<open>An indexed item of which only the \<open>folder\<close> attribute is of interest.\<close>

definition folder_attr :: "string \<Rightarrow> (string \<rightharpoonup> json_scalar)" where
  "folder_attr p = [''folder'' \<mapsto> Str p]"

section \<open>\<open>utils/autorag.ts\<close>\<close>

definition createUserFolderFilter :: "string \<Rightarrow> AutoRAGFilter" where
  "createUserFolderFilter user =
     AutoRAGFilter FAnd None None (Some
       [ AutoRAGFilter FGte (Some ''folder'') (Some (Str (user @ ''/''))) None,
         AutoRAGFilter FLt (Some ''folder'') (Some (Str (user @ ''/z''))) None ])"

record filter_options =
  since_timestamp :: "int option"
  until_timestamp :: "int option"

definition createAdvancedFilter :: "string \<Rightarrow> filter_options \<Rightarrow> AutoRAGFilter" where
  "createAdvancedFilter user options =
     (let filters0 =
            [ AutoRAGFilter FGte (Some ''folder'') (Some (Str (user @ ''/''))) None,
              AutoRAGFilter FLt (Some ''folder'') (Some (Str (user @ ''/z''))) None ];
          filters1 =
            (if truthy_num (since_timestamp options)
             then filters0 @
               [AutoRAGFilter FGte (Some ''timestamp'')
                  (Some (Str (number_toString (the (since_timestamp options))))) None]
             else filters0);
          filters2 =
            (if truthy_num (until_timestamp options)
             then filters1 @
               [AutoRAGFilter FLte (Some ''timestamp'')
                  (Some (Str (number_toString (the (until_timestamp options))))) None]
             else filters1)
      in AutoRAGFilter FAnd None None (Some filters2))"

definition filterNoteResults :: "AutoRAGSearchResult list \<Rightarrow> AutoRAGSearchResult list" where
  "filterNoteResults results =
     filter (\<lambda>result. truthy_str (filename result)
                      \<and> \<not> str_includes (the (filename result)) ''/.metadata/'') results"

definition performAutoRAGSearch ::
  "ai_binding \<Rightarrow> SearchParams \<Rightarrow> string + AutoRAGSearchResponse" where
  "performAutoRAGSearch AI params =
     (case search AI params of
        Inl e \<Rightarrow> Inl e
      | Inr None \<Rightarrow> Inl ''Invalid AutoRAG response format''
      | Inr (Some r) \<Rightarrow>
          Inr \<lparr>object = or_else (raw_object r) ''vector_store.search_results.page'',
               search_query = or_else (raw_search_query r) (query params),
               data = (case raw_data r of None \<Rightarrow> [] | Some d \<Rightarrow> d)\<rparr>)"

definition performAutoRAGAISearch ::
  "ai_binding \<Rightarrow> SearchParams \<Rightarrow> string + AutoRAGAISearchResponse" where
  "performAutoRAGAISearch AI params =
     (case aiSearch AI params of
        Inl e \<Rightarrow> Inl e
      | Inr None \<Rightarrow> Inl ''Invalid AutoRAG AI response format''
      | Inr (Some r) \<Rightarrow>
          Inr \<lparr>object = or_else (raw_object r) ''vector_store.search_results.page'',
               search_query = or_else (raw_search_query r) (query params),
               data = (case raw_data r of None \<Rightarrow> [] | Some d \<Rightarrow> d),
               response = or_else (raw_answer r) ''No relevant information found.''\<rparr>)"

text \<open>
  \<open>filename.match(/\/([^/]+)\.md$/)?.[1]\<close>: the file name has a slash, what follows
  its last slash ends in \<open>.md\<close>, and the group is the non-empty rest before \<open>.md\<close>.
\<close>

definition match_note_id :: "string \<Rightarrow> string option" where
  "match_note_id f =
     (let seg = rev (takeWhile (\<lambda>c. c \<noteq> CHR ''/'') (rev f)) in
      if CHR ''/'' \<in> set f \<and> suffix ''.md'' seg \<and> 3 < length seg
      then Some (take (length seg - 3) seg) else None)"

text \<open>
  One result of \<open>enrichResultsWithMetadata\<close>: a rejected \<open>get\<close> and a sidecar that does
  not parse are caught and leave the result as it is.
\<close>

definition enrich_result ::
  "string \<Rightarrow> r2_bucket \<Rightarrow> AutoRAGSearchResult \<Rightarrow> r2_bucket \<times> AutoRAGSearchResult" where
  "enrich_result user b result =
     (case (case filename result of None \<Rightarrow> None | Some f \<Rightarrow> match_note_id f) of
        None \<Rightarrow> (b, result)
      | Some noteId \<Rightarrow>
          (case r2_get b (user @ ''/.metadata/'' @ noteId @ ''.json'') of
             (b', Inr (Some sidecar)) \<Rightarrow>
               (case body sidecar of
                  SidecarJson sidecarData \<Rightarrow> (b', result\<lparr>sidecarMetadata := Some sidecarData\<rparr>)
                | Raw _ \<Rightarrow> (b', result))
           | (b', _) \<Rightarrow> (b', result)))"

fun enrichResultsWithMetadata ::
  "AutoRAGSearchResult list \<Rightarrow> string \<Rightarrow> r2_bucket
     \<Rightarrow> r2_bucket \<times> AutoRAGSearchResult list" where
  "enrichResultsWithMetadata [] user b = (b, [])"
| "enrichResultsWithMetadata (result # results) user b =
     (case enrich_result user b result of
        (b', r') \<Rightarrow>
          (case enrichResultsWithMetadata results user b' of
             (b'', rs') \<Rightarrow> (b'', r' # rs')))"

section \<open>\<open>utils/metadata.ts\<close>\<close>

text \<open>
  \<open>text.match(/#(\w+)/g)\<close>: the matches from left to right, each a \<open>#\<close> with the
  longest run of word characters after it, the search going on after each match.
\<close>

function tag_matches :: "string \<Rightarrow> string list" where
  "tag_matches [] = []"
| "tag_matches (c # cs) =
     (if c = CHR ''#'' \<and> takeWhile is_word_char cs \<noteq> []
      then (c # takeWhile is_word_char cs) # tag_matches (dropWhile is_word_char cs)
      else tag_matches cs)"
  by pat_completeness auto
termination
  by (relation "measure length") (auto simp: length_dropWhile_le less_Suc_eq_le)

text \<open>\<open>[...new Set(xs)]\<close>: the first occurrence of each element, in order.\<close>

definition dedupe :: "'a list \<Rightarrow> 'a list" where
  "dedupe xs = rev (remdups (rev xs))"

definition extractTags :: "string \<Rightarrow> string list" where
  "extractTags txt = dedupe (map (\<lambda>tag. toLowerCase (drop 1 tag)) (tag_matches txt))"

text \<open>
  \<open>/https?:\/\/[^\s]+/\<close> at the start of a string: the length of the match, if any.
\<close>

definition url_at :: "string \<Rightarrow> nat option" where
  "url_at s =
     (if prefix ''https://'' s \<and> takeWhile (\<lambda>c. \<not> is_space c) (drop 8 s) \<noteq> []
      then Some (8 + length (takeWhile (\<lambda>c. \<not> is_space c) (drop 8 s)))
      else if prefix ''http://'' s \<and> takeWhile (\<lambda>c. \<not> is_space c) (drop 7 s) \<noteq> []
      then Some (7 + length (takeWhile (\<lambda>c. \<not> is_space c) (drop 7 s)))
      else None)"

lemma url_at_pos: "url_at s = Some n \<Longrightarrow> 0 < n"
  by (auto simp: url_at_def split: if_splits)

function link_matches :: "string \<Rightarrow> string list" where
  "link_matches [] = []"
| "link_matches (c # cs) =
     (case url_at (c # cs) of
        Some n \<Rightarrow> take n (c # cs) # link_matches (drop n (c # cs))
      | None \<Rightarrow> link_matches cs)"
  by pat_completeness auto
termination
  by (relation "measure length") (auto dest: url_at_pos)

definition extractLinks :: "string \<Rightarrow> string list" where
  "extractLinks txt = dedupe (link_matches txt)"

text \<open>
  \<open>text.match(/^[^.!?]+[.!?]?/)?.[0]\<close>: the longest non-empty run of characters other
  than \<open>.\<close>, \<open>!\<close> and \<open>?\<close> at the start of the text, with the one character after it
  (which, if there is one, is one of the three).
\<close>

definition first_sentence :: "string \<Rightarrow> string option" where
  "first_sentence txt =
     (let run = takeWhile (\<lambda>c. c \<notin> set ''.!?'') txt in
      if run = [] then None else Some (run @ take 1 (drop (length run) txt)))"

text \<open>
  The type prefix is looked up in an object literal; a key that is not in it gives
  \<open>undefined\<close>, which the template prints as such (property names that every object
  inherits, such as \<open>constructor\<close>, are not note types the schema lets through).
\<close>

definition typePrefix :: "string \<Rightarrow> js_value" where
  "typePrefix k =
     (case map_of
        [ (''meeting'', ''Meeting Notes''),
          (''idea'', ''Idea''),
          (''task'', ''Task''),
          (''diary'', ''Journal Entry''),
          (''code'', ''Code Snippet''),
          (''other'', ''Note'') ] k of
        Some p \<Rightarrow> JStr p
      | None \<Rightarrow> Undefined)"

definition generateTitle :: "string \<Rightarrow> string option \<Rightarrow> string" where
  "generateTitle txt noteType =
     (let firstLine = trim (takeWhile (\<lambda>c. c \<noteq> CHR 0x0A) txt);
          firstSentence = (case first_sentence txt of Some m \<Rightarrow> m | None \<Rightarrow> firstLine);
          titleBase = slice0 firstSentence 50
      in js_String (typePrefix (or_else noteType ''other'')) @ '': '' @ titleBase
           @ (if 50 \<le> length titleBase then ''...'' else []))"

fun createCustomMetadata :: "(string \<times> js_value) list \<Rightarrow> (string \<times> js_value) list" where
  "createCustomMetadata [] = []"
| "createCustomMetadata ((k, v) # entries) =
     (if v \<noteq> Null \<and> v \<noteq> Undefined
      then (k, (case v of JStr s \<Rightarrow> JStr s | _ \<Rightarrow> JStr (js_String v)))
             # createCustomMetadata entries
      else createCustomMetadata entries)"

text \<open>\<open>typeof v === 'string'\<close>.\<close>

fun is_JStr :: "js_value \<Rightarrow> bool" where
  "is_JStr (JStr s) = True"
| "is_JStr _ = False"

section \<open>\<open>tools/note-tools.ts\<close>\<close>

text \<open>
  A tool handler resolves to a response whose text is either \<open>JSON.stringify\<close> of a
  payload, kept here as the payload, or plain text; or it throws (\<open>Inl\<close> with the
  message), which the handler itself does nothing about.
\<close>

datatype 'p tool_text = Json 'p | PlainText string

text \<open>\<open>new Date()\<close>, as far as it is used.\<close>

record js_date =
  toISOString :: string
  getTime :: int

text \<open>
  \<open>text.split(/\s+/)\<close>: the pieces between the runs of white space, with an empty
  piece before a leading run and after a trailing one. The second argument is the piece
  being read (reversed), the first whether the last character was white space.
\<close>

fun split_ws_aux :: "bool \<Rightarrow> string \<Rightarrow> string \<Rightarrow> string list" where
  "split_ws_aux in_ws cur [] = [rev cur]"
| "split_ws_aux in_ws cur (c # cs) =
     (if is_space c
      then (if in_ws then split_ws_aux True cur cs else rev cur # split_ws_aux True [] cs)
      else split_ws_aux False (c # cur) cs)"

definition split_ws :: "string \<Rightarrow> string list" where
  "split_ws txt = split_ws_aux False [] txt"

text \<open>The entries of \<open>{...metadata}\<close>, in the order of the object literal.\<close>

definition metadata_entries :: "NoteMetadata \<Rightarrow> (string \<times> js_value) list" where
  "metadata_entries m =
     [ (''id'', JStr (id' m)),
       (''created_at'', JStr (created_at m)),
       (''created_timestamp'', JNum (created_timestamp m)),
       (''title'', JStr (title m)),
       (''note_type'', JStr (note_type m)),
       (''author'', JStr (author m)),
       (''char_count'', JNum (char_count m)),
       (''word_count'', JNum (word_count m)),
       (''version'', JNum (version m)) ]"

record create_payload =
  created_id :: string
  created_metadata :: NoteMetadata
  storage_note :: string
  storage_sidecar :: string

text \<open>
  \<open>create_note\<close>. Besides the arguments of the tool (\<open>title\<close> is optional, \<open>note_type\<close>
  has a default in the schema), the handler reads the e-mail address of the caller, a
  fresh identifier from \<open>crypto.randomUUID()\<close> and the current date. The objects
  \<open>metadata\<close>, \<open>context\<close> and \<open>customMetadata\<close> that the handler builds first are
  definitions of their own.
\<close>

definition note_metadata ::
  "string \<Rightarrow> string \<Rightarrow> js_date \<Rightarrow> string \<Rightarrow> string option \<Rightarrow> string \<Rightarrow> NoteMetadata" where
  "note_metadata user randomUUID timestamp txt title_arg note_type_arg =
     \<lparr>id' = randomUUID,
      created_at = toISOString timestamp,
      created_timestamp = getTime timestamp,
      title = (if truthy_str title_arg then the title_arg
               else generateTitle txt (Some note_type_arg)),
      note_type = or_else (Some note_type_arg) ''other'',
      author = user,
      char_count = int (length txt),
      word_count = int (length (filter (\<lambda>word. 0 < length word) (split_ws txt))),
      version = 1\<rparr>"

definition note_context :: "NoteMetadata \<Rightarrow> string" where
  "note_context m =
     note_type m @ '' note by '' @ author m @ '': '' @ title m
       @ ''. Created: '' @ created_at m @ ''.''"

definition note_customMetadata :: "NoteMetadata \<Rightarrow> (string \<times> js_value) list" where
  "note_customMetadata m =
     createCustomMetadata (metadata_entries m @ [(''context'', JStr (note_context m))])"

definition create_note ::
  "string \<Rightarrow> string \<Rightarrow> js_date \<Rightarrow> string \<Rightarrow> string option \<Rightarrow> string \<Rightarrow> r2_bucket
     \<Rightarrow> r2_bucket \<times> (string + create_payload tool_text)" where
  "create_note user randomUUID timestamp txt title_arg note_type_arg NOTES =
     (let metadata = note_metadata user randomUUID timestamp txt title_arg note_type_arg;
          customMetadata = note_customMetadata metadata
      in case r2_put NOTES (user @ ''/'' @ randomUUID @ ''.md'') (Raw txt) ''text/markdown''
                (Some customMetadata) of
           (NOTES1, Inl e) \<Rightarrow> (NOTES1, Inl e)
         | (NOTES1, Inr _) \<Rightarrow>
             (let sidecarData =
                    NoteMetadata.extend metadata
                      (NoteSidecarData.fields (slice0 txt 200) (extractTags txt) (extractLinks txt))
              in case r2_put NOTES1 (user @ ''/.metadata/'' @ randomUUID @ ''.json'')
                        (SidecarJson sidecarData) ''application/json'' None of
                   (NOTES2, Inl e) \<Rightarrow> (NOTES2, Inl e)
                 | (NOTES2, Inr _) \<Rightarrow>
                     (NOTES2,
                      Inr (Json \<lparr>created_id = randomUUID,
                                 created_metadata = metadata,
                                 storage_note = user @ ''/'' @ randomUUID @ ''.md'',
                                 storage_sidecar =
                                   user @ ''/.metadata/'' @ randomUUID @ ''.json''\<rparr>))))"

record deleted_note_info =
  deleted_id :: string
  deleted_title :: string
  deleted_user :: string

text \<open>
  The three payloads of \<open>delete_note\<close> are objects with different fields; a field that
  a payload does not have is \<open>None\<close>.
\<close>

record delete_payload =
  success :: bool
  error :: "string option"
  note_id :: "string option"
  user_folder :: "string option"
  error_details :: "string option"
  deleted_note :: "deleted_note_info option"
  files_deleted :: "string list option"
  message :: string

definition delete_failed :: "string \<Rightarrow> string \<Rightarrow> delete_payload" where
  "delete_failed note_id_arg errorMessage =
     \<lparr>success = False,
      error = Some ''Deletion failed'',
      note_id = Some note_id_arg,
      user_folder = None,
      error_details = Some errorMessage,
      deleted_note = None,
      files_deleted = None,
      message = ''Failed to delete note '' @ note_id_arg @ '': '' @ errorMessage\<rparr>"

text \<open>
  \<open>delete_note\<close>. Everything is inside one \<open>try\<close>, so the handler never throws. The
  two deletions are started one after the other and awaited together; when both reject,
  the message is taken from the first.
\<close>

definition delete_note ::
  "string \<Rightarrow> string \<Rightarrow> r2_bucket \<Rightarrow> r2_bucket \<times> (string + delete_payload tool_text)" where
  "delete_note user note_id_arg NOTES =
     (let notePath = user @ ''/'' @ note_id_arg @ ''.md'';
          metadataPath = user @ ''/.metadata/'' @ note_id_arg @ ''.json''
      in case r2_head NOTES notePath of
           (NOTES1, Inl e) \<Rightarrow> (NOTES1, Inr (Json (delete_failed note_id_arg e)))
         | (NOTES1, Inr None) \<Rightarrow>
             (NOTES1,
              Inr (Json \<lparr>success = False,
                         error = Some ''Note not found'',
                         note_id = Some note_id_arg,
                         user_folder = Some (user @ ''/''),
                         error_details = None,
                         deleted_note = None,
                         files_deleted = None,
                         message = ''No note found with ID: '' @ note_id_arg\<rparr>))
         | (NOTES1, Inr (Some noteExists)) \<Rightarrow>
             (case r2_get NOTES1 metadataPath of (NOTES2, got) \<Rightarrow>
                (let noteTitle =
                       (case got of
                          Inr (Some sidecar) \<Rightarrow>
                            (case body sidecar of
                               SidecarJson metadataJson \<Rightarrow>
                                 or_else (Some (title metadataJson)) ''Unknown''
                             | Raw _ \<Rightarrow> ''Unknown'')
                        | _ \<Rightarrow> ''Unknown'')
                 in case r2_delete NOTES2 notePath of (NOTES3, del1) \<Rightarrow>
                      (case r2_delete NOTES3 metadataPath of (NOTES4, del2) \<Rightarrow>
                         (case (del1, del2) of
                            (Inl e, _) \<Rightarrow> (NOTES4, Inr (Json (delete_failed note_id_arg e)))
                          | (Inr _, Inl e) \<Rightarrow>
                              (NOTES4, Inr (Json (delete_failed note_id_arg e)))
                          | (Inr _, Inr _) \<Rightarrow>
                              (NOTES4,
                               Inr (Json \<lparr>success = True,
                                          error = None,
                                          note_id = None,
                                          user_folder = None,
                                          error_details = None,
                                          deleted_note =
                                            Some \<lparr>deleted_id = note_id_arg,
                                                  deleted_title = noteTitle,
                                                  deleted_user = user\<rparr>,
                                          files_deleted = Some [notePath, metadataPath],
                                          message =
                                            ''Successfully deleted note: '' @ [CHR 0x22]
                                              @ noteTitle @ [CHR 0x22] @ '' (''
                                              @ note_id_arg @ '')''\<rparr>)))))))"

section \<open>\<open>tools/search-tools.ts\<close>\<close>

text \<open>
  Each search handler returns, besides its response, the parameters it sent to the
  search service. \<open>limit || d\<close> on a number is \<^term>\<open>or_num\<close>.
\<close>

definition or_num :: "int \<Rightarrow> int \<Rightarrow> int" where
  "or_num n d = (if n = 0 then d else n)"

record simple_payload =
  simple_user_folder :: string
  simple_search_query :: string
  simple_total_results :: int
  simple_filtered_results :: int
  simple_results :: "AutoRAGSearchResult list"
  simple_applied_filter :: AutoRAGFilter

definition search_notes_simple ::
  "string \<Rightarrow> ai_binding \<Rightarrow> string \<Rightarrow> int
     \<Rightarrow> SearchParams list \<times> (string + simple_payload tool_text)" where
  "search_notes_simple user AI query_arg limit_arg =
     (let params =
            \<lparr>query = query_arg,
             max_num_results = Some (min (or_num limit_arg 10) 50),
             rewrite_query = Some True,
             score_threshold = Some (3 / 10),
             filters = Some (createUserFolderFilter user)\<rparr>
      in ([params],
          case performAutoRAGSearch AI params of
            Inl e \<Rightarrow> Inr (PlainText (''Search error: '' @ e))
          | Inr resp \<Rightarrow>
              (let noteResults = filterNoteResults (data resp)
               in Inr (Json \<lparr>simple_user_folder = user @ ''/'',
                              simple_search_query = search_query resp,
                              simple_total_results = int (length (data resp)),
                              simple_filtered_results = int (length noteResults),
                              simple_results = noteResults,
                              simple_applied_filter = createUserFolderFilter user\<rparr>))))"

text \<open>
  The content preview of a result: the first 300 characters of the text of its first
  chunk, of its content when that is a string, or of its \<open>text\<close>.
\<close>

definition preview300 :: "string \<Rightarrow> string" where
  "preview300 t = slice0 t 300 @ (if 300 < length t then ''...'' else [])"

definition contentPreview :: "AutoRAGSearchResult \<Rightarrow> string" where
  "contentPreview result =
     (let from_text =
            (if truthy_str (text_field result) then preview300 (the (text_field result))
             else ''No content available'')
      in case content result of
           Some (ContentChunks chunks) \<Rightarrow>
             (case chunks of
                [] \<Rightarrow> from_text
              | firstChunk # _ \<Rightarrow>
                  (if truthy_str firstChunk then preview300 (the firstChunk)
                   else ''No content available''))
         | Some (ContentString s) \<Rightarrow> (if s \<noteq> [] then preview300 s else from_text)
         | None \<Rightarrow> from_text)"

record advanced_result =
  adv_filename :: "string option"
  adv_score :: "rat option"
  adv_metadata :: "(string \<times> string) list option"
  adv_enriched_metadata :: js_value
  adv_content_preview :: string

record advanced_payload =
  adv_user_folder :: string
  adv_search_query :: string
  adv_since_days :: json_scalar
  adv_until_days :: json_scalar
  adv_total_results :: int
  adv_results :: "advanced_result list"

record fallback_result =
  fb_key :: string
  fb_metadata :: "(string \<times> string) list"
  fb_score :: rat

record fallback_payload =
  fb_results :: "fallback_result list"
  fb_total :: int
  fallback :: bool
  fb_since_days :: "int option"
  fb_until_days :: "int option"
  fb_error :: string

datatype advanced_json = AdvancedResults advanced_payload | Fallback fallback_payload

text \<open>
  The loop of the fallback over the listed objects:
  \<open>metadata.title?.toLowerCase().includes(query.toLowerCase())\<close> on
  \<open>object.customMetadata || {}\<close>.
\<close>

definition matchesQuery :: "string \<Rightarrow> r2_listed \<Rightarrow> bool" where
  "matchesQuery query_arg obj =
     (case map_of (case listed_customMetadata obj of None \<Rightarrow> [] | Some m \<Rightarrow> m) ''title'' of
        None \<Rightarrow> False
      | Some t \<Rightarrow> str_includes (toLowerCase t) (toLowerCase query_arg))"

fun fallback_scan :: "string \<Rightarrow> r2_listed list \<Rightarrow> fallback_result list" where
  "fallback_scan query_arg [] = []"
| "fallback_scan query_arg (obj # objs) =
     (if matchesQuery query_arg obj
      then \<lparr>fb_key = listed_key obj,
            fb_metadata = (case listed_customMetadata obj of None \<Rightarrow> [] | Some m \<Rightarrow> m),
            fb_score = 1\<rparr> # fallback_scan query_arg objs
      else fallback_scan query_arg objs)"

text \<open>
  \<open>search_notes_advanced\<close>. Besides the arguments of the tool the handler reads the
  caller's e-mail address and \<open>Date.now()\<close>. The clock, the limit and the day offsets are
  whole numbers here, computed with exactly; the schema also lets fractional numbers
  through, and beyond \<open>2^53\<close> the arithmetic of the code rounds: such calls are outside
  this model. Everything up to the response is inside a
  \<open>try\<close> whose \<open>catch\<close> is the fallback; the listing of the fallback is not guarded, so
  if it rejects the handler throws.
\<close>

definition search_notes_advanced ::
  "string \<Rightarrow> ai_binding \<Rightarrow> r2_bucket \<Rightarrow> int \<Rightarrow> string \<Rightarrow> int \<Rightarrow> int option \<Rightarrow> int option
     \<Rightarrow> SearchParams list \<times> r2_bucket \<times> (string + advanced_json tool_text)" where
  "search_notes_advanced user AI NOTES now query_arg limit_arg since_days until_days =
     (let since_ts =
            (if truthy_num since_days
             then Some (now - the since_days * 24 * 60 * 60 * 1000) else None);
          until_ts =
            (if truthy_num until_days
             then Some (now - the until_days * 24 * 60 * 60 * 1000) else None);
          filters_built =
            createAdvancedFilter user \<lparr>since_timestamp = since_ts, until_timestamp = until_ts\<rparr>;
          params =
            \<lparr>query = query_arg,
             max_num_results = Some (min (or_num limit_arg 10) 50),
             rewrite_query = Some True,
             score_threshold = Some (3 / 10),
             filters = Some filters_built\<rparr>
      in case performAutoRAGSearch AI params of
           Inr resp \<Rightarrow>
             (case enrichResultsWithMetadata (filterNoteResults (data resp)) user NOTES of
                (NOTES1, enrichedResults) \<Rightarrow>
                  ([params], NOTES1,
                   Inr (Json (AdvancedResults
                     \<lparr>adv_user_folder = user @ ''/'',
                      adv_search_query = search_query resp,
                      adv_since_days =
                        (if truthy_num since_days then Num (the since_days)
                         else Str ''all time''),
                      adv_until_days =
                        (if truthy_num until_days then Num (the until_days)
                         else Str ''all time''),
                      adv_total_results = int (length enrichedResults),
                      adv_results =
                        map (\<lambda>result.
                               \<lparr>adv_filename = filename result,
                                adv_score = score result,
                                adv_metadata = metadata result,
                                adv_enriched_metadata = enriched_metadata result,
                                adv_content_preview = contentPreview result\<rparr>)
                          enrichedResults\<rparr>))))
         | Inl e \<Rightarrow>
             (case r2_list NOTES (user @ ''/'') 1000 of
                (NOTES1, Inl e') \<Rightarrow> ([params], NOTES1, Inl e')
              | (NOTES1, Inr listed) \<Rightarrow>
                  (let results = fallback_scan query_arg listed
                   in ([params], NOTES1,
                       Inr (Json (Fallback
                         \<lparr>fb_results = slice0 results (or_num limit_arg 10),
                          fb_total = int (length results),
                          fallback = True,
                          fb_since_days = since_days,
                          fb_until_days = until_days,
                          fb_error = e\<rparr>))))))"

text \<open>\<open>xs.join(', ')\<close>.\<close>

fun join_comma :: "string list \<Rightarrow> string" where
  "join_comma [] = []"
| "join_comma [x] = x"
| "join_comma (x # y # ys) = x @ '', '' @ join_comma (y # ys)"

text \<open>
  \<open>ai_search_notes\<close>: the answer of the service as plain text. The numbers are whole
  numbers as in \<open>search_notes_advanced\<close>.
\<close>

definition ai_search_notes ::
  "string \<Rightarrow> ai_binding \<Rightarrow> int \<Rightarrow> string \<Rightarrow> int \<Rightarrow> int option \<Rightarrow> int option
     \<Rightarrow> SearchParams list \<times> (string + unit tool_text)" where
  "ai_search_notes user AI now query_arg limit_arg since_days until_days =
     (let since_ts =
            (if truthy_num since_days
             then Some (now - the since_days * 24 * 60 * 60 * 1000) else None);
          until_ts =
            (if truthy_num until_days
             then Some (now - the until_days * 24 * 60 * 60 * 1000) else None);
          filters_built =
            createAdvancedFilter user \<lparr>since_timestamp = since_ts, until_timestamp = until_ts\<rparr>;
          params =
            \<lparr>query = query_arg,
             max_num_results = Some (min (or_num limit_arg 5) 50),
             rewrite_query = Some True,
             score_threshold = Some (3 / 10),
             filters = Some filters_built\<rparr>
      in ([params],
          case performAutoRAGAISearch AI params of
            Inl e \<Rightarrow>
              Inr (PlainText
                (''Search error: '' @ e @ [CHR 0x0A, CHR 0x0A]
                 @ ''Note: AutoRAG may need time to index newly created documents. ''
                 @ ''Try again in a few minutes.''))
          | Inr resp \<Rightarrow>
              (let responseText =
                     or_else (Some (response resp))
                       ''No relevant information found in your notes.'';
                   filterInfo =
                     (if truthy_num since_days
                      then [''from the last '' @ number_toString (the since_days) @ '' days'']
                      else [])
                     @ (if truthy_num until_days
                        then [''older than '' @ number_toString (the until_days) @ '' days'']
                        else [])
               in Inr (PlainText
                    (if truthy_num since_days \<or> truthy_num until_days
                     then responseText @ [CHR 0x0A, CHR 0x0A]
                            @ ''*Note: This answer is based on notes filtered by ''
                            @ join_comma filterInfo @ ''.*''
                     else responseText)))))"

section \<open>\<open>utils.ts\<close> and \<open>google-handler.ts\<close>: the OAuth callback\<close>

text \<open>
  An HTTP response, as far as the handler builds it. \<open>c.text(msg, status)\<close> of the web
  framework and \<open>new Response(msg, {status})\<close> give a plain-text response (they spell the
  content type differently), \<open>Response.redirect(url)\<close> a 302 with the location.
\<close>

record http_response =
  status :: int
  response_body :: string
  response_headers :: "(string \<times> string) list"

definition text_response :: "string \<Rightarrow> int \<Rightarrow> http_response" where
  "text_response msg code =
     \<lparr>status = code, response_body = msg,
      response_headers = [(''Content-Type'', ''text/plain;charset=UTF-8'')]\<rparr>"

definition c_text :: "string \<Rightarrow> int \<Rightarrow> http_response" where
  "c_text msg code =
     \<lparr>status = code, response_body = msg,
      response_headers = [(''Content-Type'', ''text/plain; charset=UTF-8'')]\<rparr>"

definition redirect_response :: "string \<Rightarrow> http_response" where
  "redirect_response url =
     \<lparr>status = 302, response_body = [], response_headers = [(''Location'', url)]\<rparr>"

text \<open>
  The outcome of a \<open>fetch\<close> and of reading its body as JSON: the call rejects, the
  response is not \<open>ok\<close>, or it is \<open>ok\<close> with a body.
\<close>

datatype 'a fetched = FetchRejects string | NotOk | Ok 'a

text \<open>\<open>AuthRequest\<close> of the OAuth provider library, of which the handler reads two fields.\<close>

record AuthRequest =
  clientId :: "string option"
  scope :: "string list"

record token_request =
  tr_code :: "string option"
  tr_upstreamUrl :: string
  tr_clientSecret :: string
  tr_redirectUri :: string
  tr_clientId :: string
  tr_grantType :: string

text \<open>The profile that the user-info endpoint returns; \<open>hd\<close> is the hosted domain.\<close>

record userinfo =
  ui_id :: string
  ui_email :: string
  ui_name :: string
  ui_hd :: "string option"

text \<open>The argument of \<open>completeAuthorization\<close>.\<close>

record grant_options =
  grant_label :: string
  props_login :: string
  props_accessToken :: string
  props_email :: string
  props_name :: string
  grant_request :: AuthRequest
  grant_scope :: "string list"
  grant_userId :: string

text \<open>
  What the callback reads from outside the repository: the configuration, the library
  functions that decode the state parameter (\<open>decodeURIComponent\<close>, and \<open>JSON.parse\<close> of
  \<open>atob\<close>, each of which may throw with a message), the resolution of \<open>/callback\<close>
  against the request URL, the two endpoints of the identity provider, and
  \<open>completeAuthorization\<close> of the OAuth provider, which gives the URL to redirect to.
\<close>

record callback_env =
  GOOGLE_CLIENT_ID :: string
  GOOGLE_CLIENT_SECRET :: string
  GOOGLE_HOSTED_DOMAIN :: "string option"
  decodeURIComponent :: "string \<Rightarrow> string + string"
  parse_atob :: "string \<Rightarrow> string + AuthRequest"
  callback_href :: "string \<Rightarrow> string"
  token_endpoint :: "token_request \<Rightarrow> string fetched"
  userinfo_endpoint :: "string \<Rightarrow> userinfo fetched"
  completeAuthorization :: "grant_options \<Rightarrow> string + string"

record callback_request =
  request_url :: string
  query_state :: "string option"
  query_code :: "string option"

text \<open>
  \<open>fetchUpstreamAuthToken\<close> of \<open>utils.ts\<close> resolves to a pair of which one component is
  null: the access token or an error response. It throws when the \<open>fetch\<close> rejects.
\<close>

datatype token_result = AccessToken string | ErrResponse http_response

definition fetchUpstreamAuthToken ::
  "callback_env \<Rightarrow> token_request \<Rightarrow> string + token_result" where
  "fetchUpstreamAuthToken env req =
     (if \<not> truthy_str (tr_code req) then Inr (ErrResponse (text_response ''Missing code'' 400))
      else case token_endpoint env req of
             FetchRejects e \<Rightarrow> Inl e
           | NotOk \<Rightarrow> Inr (ErrResponse (text_response ''Failed to fetch access token'' 500))
           | Ok access_token \<Rightarrow> Inr (AccessToken access_token))"

text \<open>
  The state parameter is decoded as a URI component and parsed; if either throws, the
  raw parameter is parsed; if that throws too, the result is the message of the first
  failure.
\<close>

definition decode_state :: "callback_env \<Rightarrow> string \<Rightarrow> string + AuthRequest" where
  "decode_state env rawState =
     (case (case decodeURIComponent env rawState of
              Inl e \<Rightarrow> Inl e
            | Inr decodedState \<Rightarrow> parse_atob env decodedState) of
        Inr oauthReqInfo \<Rightarrow> Inr oauthReqInfo
      | Inl errorMessage \<Rightarrow>
          (case parse_atob env rawState of
             Inr oauthReqInfo \<Rightarrow> Inr oauthReqInfo
           | Inl fallbackMessage \<Rightarrow> Inl errorMessage))"

text \<open>The page of the denial, a template with the configured domain and the e-mail.\<close>

definition page_line :: "nat \<Rightarrow> string \<Rightarrow> string" where
  "page_line n s = replicate n (CHR 0x09) @ s @ [CHR 0x0A]"

definition denial_page :: "string \<Rightarrow> string \<Rightarrow> string" where
  "denial_page domain email =
     [CHR 0x0A]
     @ page_line 3 ''<!DOCTYPE html>''
     @ page_line 3 ''<html>''
     @ page_line 3 ''<head>''
     @ page_line 4 ''<title>Access Denied</title>''
     @ page_line 4 ''<style>''
     @ page_line 5
         ''body { font-family: Arial, sans-serif; text-align: center; padding: 50px; }''
     @ page_line 5 ''.error { color: #d32f2f; }''
     @ page_line 5 ''.user-info { color: #666; margin-top: 20px; }''
     @ page_line 4 ''</style>''
     @ page_line 3 ''</head>''
     @ page_line 3 ''<body>''
     @ page_line 4 (''<h1 class='' @ [CHR 0x22] @ ''error'' @ [CHR 0x22]
                    @ ''>Access Denied</h1>'')
     @ page_line 4 (''<p>Sorry, you must use an account from the '' @ domain
                    @ '' domain.</p>'')
     @ page_line 4 (''<p class='' @ [CHR 0x22] @ ''user-info'' @ [CHR 0x22]
                    @ ''>You authenticated as: <strong>'' @ email @ ''</strong></p>'')
     @ page_line 4 ''<p>Please sign in with the correct domain account.</p>''
     @ page_line 3 ''</body>''
     @ page_line 3 ''</html>''
     @ replicate 2 (CHR 0x09)"

text \<open>
  The handler of \<open>GET /callback\<close>. It returns the calls of \<open>completeAuthorization\<close> it
  made, that is, the grants it asked for, and its response, or \<open>Inl\<close> when it throws.
\<close>

definition callback ::
  "callback_env \<Rightarrow> callback_request \<Rightarrow> grant_options list \<times> (string + http_response)" where
  "callback env req =
     (if \<not> truthy_str (query_state req)
      then ([], Inr (c_text ''Missing state parameter'' 400))
      else case decode_state env (the (query_state req)) of
        Inl errorMessage \<Rightarrow>
          ([], Inr (c_text (''Invalid state parameter: '' @ errorMessage) 400))
      | Inr oauthReqInfo \<Rightarrow>
          if \<not> truthy_str (clientId oauthReqInfo)
          then ([], Inr (c_text ''Invalid state'' 400))
          else if \<not> truthy_str (query_code req)
          then ([], Inr (c_text ''Missing authorization code'' 400))
          else
            (case fetchUpstreamAuthToken env
                    \<lparr>tr_code = query_code req,
                     tr_upstreamUrl = ''https://oauth2.googleapis.com/token'',
                     tr_clientSecret = GOOGLE_CLIENT_SECRET env,
                     tr_redirectUri = callback_href env (request_url req),
                     tr_clientId = GOOGLE_CLIENT_ID env,
                     tr_grantType = ''authorization_code''\<rparr> of
               Inl e \<Rightarrow> ([], Inl e)
             | Inr (ErrResponse errResponse) \<Rightarrow> ([], Inr errResponse)
             | Inr (AccessToken accessToken) \<Rightarrow>
                 (case userinfo_endpoint env accessToken of
                    FetchRejects e \<Rightarrow> ([], Inl e)
                  | NotOk \<Rightarrow> ([], Inr (c_text ''Failed to fetch user information'' 500))
                  | Ok userInfo \<Rightarrow>
                      if truthy_str (GOOGLE_HOSTED_DOMAIN env)
                         \<and> (\<not> truthy_str (ui_hd userInfo)
                              \<or> ui_hd userInfo \<noteq> GOOGLE_HOSTED_DOMAIN env)
                      then
                        ([], Inr \<lparr>status = 403,
                                  response_body =
                                    denial_page (the (GOOGLE_HOSTED_DOMAIN env))
                                      (ui_email userInfo),
                                  response_headers = [(''Content-Type'', ''text/html'')]\<rparr>)
                      else
                        (let grant =
                               \<lparr>grant_label = ui_name userInfo,
                                props_login = ui_email userInfo,
                                props_accessToken = accessToken,
                                props_email = ui_email userInfo,
                                props_name = ui_name userInfo,
                                grant_request = oauthReqInfo,
                                grant_scope = scope oauthReqInfo,
                                grant_userId = ui_id userInfo\<rparr>
                         in case completeAuthorization env grant of
                              Inl e \<Rightarrow> ([grant], Inl e)
                            | Inr redirectTo \<Rightarrow>
                                ([grant], Inr (redirect_response redirectTo))))))"

section \<open>Notions used in the statements\<close>

text \<open>
  The filter that \<open>search_notes_advanced\<close> and \<open>ai_search_notes\<close> send: the two folder
  clauses of the user, then the \<open>timestamp\<close> clause of \<open>since_days\<close> and then that of
  \<open>until_days\<close>, each only if the parameter is given and not 0 and the timestamp
  computed from it is not 0.
\<close>

definition time_clauses :: "int \<Rightarrow> int option \<Rightarrow> int option \<Rightarrow> AutoRAGFilter list" where
  "time_clauses now since_days until_days =
     (case since_days of
        None \<Rightarrow> []
      | Some d \<Rightarrow>
          if d = 0 \<or> now - d * 86400000 = 0 then []
          else [AutoRAGFilter FGte (Some ''timestamp'')
                  (Some (Str (number_toString (now - d * 86400000)))) None])
     @ (case until_days of
          None \<Rightarrow> []
        | Some d \<Rightarrow>
            if d = 0 \<or> now - d * 86400000 = 0 then []
            else [AutoRAGFilter FLte (Some ''timestamp'')
                    (Some (Str (number_toString (now - d * 86400000)))) None])"

text \<open>
  The user of every tool handler is \<open>props.email\<close>, which the callback takes from the
  profile of the identity provider: an e-mail address. Of an address the statements use
  only that it has exactly one \<open>@\<close> and no slash after it.
\<close>

definition is_address :: "string \<Rightarrow> bool" where
  "is_address u =
     (length (filter (\<lambda>c. c = CHR ''@'') u) = 1
      \<and> CHR ''/'' \<notin> set (dropWhile (\<lambda>c. c \<noteq> CHR ''@'') u))"

section \<open>Example stores\<close>

text \<open>
  Concrete buckets at which the theorems below are instantiated: an empty one, and one
  that holds a sidecar whose note is missing. Neither rejects a request.
\<close>

definition empty_store :: r2_bucket where
  "empty_store =
     \<lparr>objects = [], rejects = (\<lambda>req. None), list_sends_metadata = True, issued = []\<rparr>"

definition orphan_store :: r2_bucket where
  "orphan_store =
     \<lparr>objects =
        [(''bob@x.io/.metadata/123e4567-e89b-42d3-a456-426614174000.json'',
          \<lparr>body = Raw ''{}'', contentType = ''application/json'', customMetadata = []\<rparr>)],
      rejects = (\<lambda>req. None),
      list_sends_metadata = True,
      issued = []\<rparr>"

text \<open>
  A store with two notes of one user and the sidecar of the first (its body cut off, so
  not a JSON document), once listed with the custom metadata and once, as a worker of
  today gets it, without; and a search service of which every call rejects.
\<close>

definition notes_store :: r2_bucket where
  "notes_store =
     \<lparr>objects =
        [(''bob@x.io/123e4567-e89b-42d3-a456-426614174000.md'',
          \<lparr>body = Raw ''Buy milk'', contentType = ''text/markdown'',
           customMetadata = [(''id'', ''123e4567-e89b-42d3-a456-426614174000''),
                             (''title'', ''Task: Buy MILK'')]\<rparr>),
         (''bob@x.io/.metadata/123e4567-e89b-42d3-a456-426614174000.json'',
          \<lparr>body = Raw ''(cut off)'', contentType = ''application/json'',
           customMetadata = []\<rparr>),
         (''bob@x.io/9f1c2d3e-0000-4000-8000-000000000001.md'',
          \<lparr>body = Raw ''Rockets'', contentType = ''text/markdown'',
           customMetadata = [(''title'', ''Idea: Rockets'')]\<rparr>)],
      rejects = (\<lambda>req. None),
      list_sends_metadata = True,
      issued = []\<rparr>"

definition plain_listing_store :: r2_bucket where
  "plain_listing_store = notes_store\<lparr>list_sends_metadata := False\<rparr>"

definition failing_ai :: ai_binding where
  "failing_ai =
     \<lparr>search = (\<lambda>params. Inl ''AutoRAG unavailable''),
      aiSearch = (\<lambda>params. Inl ''AutoRAG unavailable'')\<rparr>"

text \<open>
  A search service that answers every search with a note and a sidecar of one user.
\<close>

definition note_hit :: AutoRAGSearchResult where
  "note_hit =
     \<lparr>filename = Some ''bob@x.io/123e4567-e89b-42d3-a456-426614174000.md'',
      content = Some (ContentChunks [Some ''Buy milk'']),
      text_field = None,
      score = Some (9 / 10),
      metadata = None,
      enriched_metadata = Undefined,
      sidecarMetadata = None\<rparr>"

definition sidecar_hit :: AutoRAGSearchResult where
  "sidecar_hit =
     \<lparr>filename = Some ''bob@x.io/.metadata/123e4567-e89b-42d3-a456-426614174000.json'',
      content = Some (ContentChunks [Some ''{}'']),
      text_field = None,
      score = Some (1 / 2),
      metadata = None,
      enriched_metadata = Undefined,
      sidecarMetadata = None\<rparr>"

definition answering_ai :: ai_binding where
  "answering_ai =
     \<lparr>search = (\<lambda>params. Inr (Some \<lparr>raw_object = None, raw_search_query = None,
                                      raw_answer = None,
                                      raw_data = Some [note_hit, sidecar_hit]\<rparr>)),
      aiSearch = (\<lambda>params. Inr (Some \<lparr>raw_object = None, raw_search_query = None,
                                        raw_answer = Some ''Buy milk.'',
                                        raw_data = Some [note_hit, sidecar_hit]\<rparr>))\<rparr>"

definition milk_payload :: simple_payload where
  "milk_payload =
     \<lparr>simple_user_folder = ''bob@x.io/'',
      simple_search_query = ''milk'',
      simple_total_results = 2,
      simple_filtered_results = 1,
      simple_results = [note_hit],
      simple_applied_filter = createUserFolderFilter ''bob@x.io''\<rparr>"

text \<open>
  A login at a deployment with the hosted domain \<open>x.io\<close>. The state parameter is the
  Base64 text of the JSON document
  \<^verbatim>\<open>{"responseType":"code","clientId":"mcp-client","redirectUri":"https://client.example/cb","scope":["email"],"state":"s1"}\<close>,
  as \<open>redirectToGoogle\<close> builds it with \<open>btoa(JSON.stringify(oauthReqInfo))\<close>. The
  library functions of the example are right at this state: it has no \<open>%\<close>, so
  \<open>decodeURIComponent\<close> leaves it as it is, and \<open>JSON.parse\<close> of \<open>atob\<close> gives the
  request. The example has no use for other strings and lets the functions throw there.
  Every later step succeeds, and the profile is of another domain.
\<close>

definition login_state :: string where
  "login_state =
     ''eyJyZXNwb25zZVR5cGUiOiJjb2RlIiwiY2xpZW50SWQiOiJtY3AtY2xpZW50IiwicmVkaXJlY3RVcmkiOiJo''
     @ ''dHRwczovL2NsaWVudC5leGFtcGxlL2NiIiwic2NvcGUiOlsiZW1haWwiXSwic3RhdGUiOiJzMSJ9''"

definition restricted_env :: callback_env where
  "restricted_env =
     \<lparr>GOOGLE_CLIENT_ID = ''client-id'',
      GOOGLE_CLIENT_SECRET = ''client-secret'',
      GOOGLE_HOSTED_DOMAIN = Some ''x.io'',
      decodeURIComponent =
        (\<lambda>s. if CHR ''%'' \<in> set s then Inl ''URI malformed'' else Inr s),
      parse_atob =
        (\<lambda>s. if s = login_state
             then Inr \<lparr>clientId = Some ''mcp-client'', scope = [''email'']\<rparr>
             else Inl ''Unexpected token''),
      callback_href = (\<lambda>url. ''https://notes.example/callback''),
      token_endpoint = (\<lambda>treq. Ok ''token-1''),
      userinfo_endpoint =
        (\<lambda>token. Ok \<lparr>ui_id = ''42'', ui_email = ''eve@y.io'', ui_name = ''Eve'',
                       ui_hd = Some ''y.io''\<rparr>),
      completeAuthorization = (\<lambda>grant. Inr ''https://client.example/done'')\<rparr>"

definition login_request :: callback_request where
  "login_request =
     \<lparr>request_url =
        ''https://notes.example/callback?state='' @ login_state @ ''&code=xyz'',
      query_state = Some login_state,
      query_code = Some ''xyz''\<rparr>"

section \<open>Facts about strings\<close>

lemma str_includes_iff: "str_includes s sub \<longleftrightarrow> (\<exists>pre post. s = pre @ sub @ post)"
proof (induction s)
  case Nil
  then show ?case by auto
next
  case (Cons c cs)
  show ?case
  proof
    assume "str_includes (c # cs) sub"
    then consider "prefix sub (c # cs)" | "str_includes cs sub" by auto
    then show "\<exists>pre post. c # cs = pre @ sub @ post"
    proof cases
      case 1
      then obtain post where "c # cs = sub @ post" by (auto simp: prefix_def)
      then have "c # cs = [] @ sub @ post" by simp
      then show ?thesis by blast
    next
      case 2
      with Cons.IH obtain pre post where "cs = pre @ sub @ post" by blast
      then have "c # cs = (c # pre) @ sub @ post" by simp
      then show ?thesis by blast
    qed
  next
    assume "\<exists>pre post. c # cs = pre @ sub @ post"
    then obtain pre post where eq: "c # cs = pre @ sub @ post" by blast
    show "str_includes (c # cs) sub"
    proof (cases pre)
      case Nil
      with eq have "prefix sub (c # cs)" by (simp add: prefix_def)
      then show ?thesis by simp
    next
      case (Cons d pre')
      with eq have "cs = pre' @ sub @ post" by simp
      with Cons.IH have "str_includes cs sub" by blast
      then show ?thesis by simp
    qed
  qed
qed

lemma lex_append_same_less: "xs @ ys < xs @ zs \<longleftrightarrow> ys < (zs :: 'a::linorder list)"
  by (induction xs) simp_all

lemma lex_append_same_le: "xs @ ys \<le> xs @ zs \<longleftrightarrow> ys \<le> (zs :: 'a::linorder list)"
  by (induction xs) simp_all

lemma lex_range_prefix:
  fixes lo :: "'a::linorder list"
  shows "lo \<le> s \<Longrightarrow> s < lo @ [c] \<Longrightarrow> prefix lo s"
proof (induction lo arbitrary: s)
  case Nil
  then show ?case by simp
next
  case (Cons a lo)
  then show ?case by (cases s) auto
qed

lemma is_hex_less_z: "is_hex c \<Longrightarrow> c < CHR ''z''"
  by (auto simp: is_hex_def)

lemma is_uuid_less_z: "is_uuid s \<Longrightarrow> s @ t < ''z''"
proof (cases s)
  case Nil
  assume "is_uuid s"
  with Nil show ?thesis by (simp add: is_uuid_def)
next
  case (Cons c cs)
  assume "is_uuid s"
  with Cons have "is_hex c" by (simp add: is_uuid_def)
  then have "c < CHR ''z''" by (rule is_hex_less_z)
  with Cons show ?thesis by simp
qed

section \<open>The tenant filter\<close>

lemma user_filter_range:
  "filter_matches (folder_attr p) (createUserFolderFilter u)
     \<longleftrightarrow> u @ ''/'' \<le> p \<and> p < u @ ''/z''"
  by (simp add: createUserFolderFilter_def folder_attr_def)

text \<open>
  The range \<open>[u/, u/z)\<close> holds exactly the strings \<open>u/t\<close> with \<open>t\<close> below \<open>z\<close>, that is,
  \<open>t\<close> empty or starting with a character before \<open>z\<close>.
\<close>

lemma user_filter_prefix_form:
  "filter_matches (folder_attr p) (createUserFolderFilter u)
     \<longleftrightarrow> (\<exists>t. p = u @ ''/'' @ t \<and> t < ''z'')"
proof
  assume "filter_matches (folder_attr p) (createUserFolderFilter u)"
  then have lo: "u @ ''/'' \<le> p" and hi: "p < (u @ ''/'') @ ''z''"
    by (simp_all add: user_filter_range)
  from lex_range_prefix [OF lo hi] obtain t where p: "p = (u @ ''/'') @ t"
    by (auto simp: prefix_def)
  with hi have "t < ''z''"
    using lex_append_same_less [of "u @ ''/''" t "''z''"] by simp
  with p show "\<exists>t. p = u @ ''/'' @ t \<and> t < ''z''" by auto
next
  assume "\<exists>t. p = u @ ''/'' @ t \<and> t < ''z''"
  then obtain t where p: "p = u @ ''/'' @ t" and t: "t < ''z''" by blast
  have "(u @ ''/'') @ [] \<le> (u @ ''/'') @ t"
    unfolding lex_append_same_le by simp
  moreover have "(u @ ''/'') @ t < (u @ ''/'') @ ''z''"
    unfolding lex_append_same_less using t .
  ultimately show "filter_matches (folder_attr p) (createUserFolderFilter u)"
    by (simp add: user_filter_range p)
qed

lemma user_filter_isolates:
  assumes ne: "u1 \<noteq> u2"
    and n12: "\<not> prefix (u1 @ ''/'') u2"
    and n21: "\<not> prefix (u2 @ ''/'') u1"
  shows "\<not> filter_matches (folder_attr (u2 @ ''/'' @ rest)) (createUserFolderFilter u1)"
proof
  assume "filter_matches (folder_attr (u2 @ ''/'' @ rest)) (createUserFolderFilter u1)"
  then obtain t where eq: "u2 @ ''/'' @ rest = u1 @ ''/'' @ t"
    by (auto simp: user_filter_prefix_form)
  have p1: "prefix (u1 @ ''/'') ((u2 @ ''/'') @ rest)"
    using eq by (simp add: prefix_def)
  have p2: "prefix (u2 @ ''/'') ((u2 @ ''/'') @ rest)" by simp
  from p1 p2 have "prefix (u1 @ ''/'') (u2 @ ''/'') \<or> prefix (u2 @ ''/'') (u1 @ ''/'')"
    by (rule prefix_same_cases)
  then show False
  proof
    assume "prefix (u1 @ ''/'') (u2 @ ''/'')"
    then have "u1 @ ''/'' = u2 @ ''/'' \<or> prefix (u1 @ ''/'') u2"
      by (auto simp: prefix_snoc)
    with ne n12 show False by auto
  next
    assume "prefix (u2 @ ''/'') (u1 @ ''/'')"
    then have "u2 @ ''/'' = u1 @ ''/'' \<or> prefix (u2 @ ''/'') u1"
      by (auto simp: prefix_snoc)
    with ne n21 show False by auto
  qed
qed

lemma user_filter_matches_note:
  assumes "is_uuid i"
  shows "filter_matches (folder_attr (u @ ''/'' @ i @ ''.md'')) (createUserFolderFilter u)"
  using is_uuid_less_z [OF assms, of "''.md''"] by (auto simp: user_filter_prefix_form)

lemma user_filter_matches_sidecar:
  "filter_matches (folder_attr (u @ ''/.metadata/'' @ i @ ''.json''))
     (createUserFolderFilter u)"
proof -
  have "''.metadata/'' @ i @ ''.json'' < ''z''" by simp
  moreover have "u @ ''/.metadata/'' @ i @ ''.json'' = u @ ''/'' @ (''.metadata/'' @ i @ ''.json'')"
    by simp
  ultimately show ?thesis unfolding user_filter_prefix_form by blast
qed

lemma is_address_not_nested:
  assumes a1: "is_address u1" and a2: "is_address u2"
  shows "\<not> prefix (u1 @ ''/'') u2"
proof
  assume "prefix (u1 @ ''/'') u2"
  then obtain r where u2: "u2 = u1 @ ''/'' @ r" by (auto simp: prefix_def)
  from a1 have "filter (\<lambda>c. c = CHR ''@'') u1 \<noteq> []"
    by (auto simp: is_address_def)
  then have "\<exists>c \<in> set u1. c = CHR ''@''"
    by (simp add: filter_empty_conv)
  then have at: "CHR ''@'' \<in> set u1" by simp
  have "dropWhile (\<lambda>c. c \<noteq> CHR ''@'') (u1 @ (''/'' @ r))
          = dropWhile (\<lambda>c. c \<noteq> CHR ''@'') u1 @ (''/'' @ r)"
    using at by (intro dropWhile_append1 [of "CHR ''@''"]) simp_all
  then have "CHR ''/'' \<in> set (dropWhile (\<lambda>c. c \<noteq> CHR ''@'') u2)"
    by (simp add: u2)
  with a2 show False by (simp add: is_address_def)
qed

text \<open>
  \<^bold>\<open>C1\<close>. For distinct users \<open>u1\<close> and \<open>u2\<close>, each an e-mail address as every user
  of the tools is, the filter built by \<open>createUserFolderFilter u1\<close> matches no folder
  path belonging to \<open>u2\<close>, that is, no string that starts with \<open>u2/\<close>; and for every
  user \<open>u1\<close> and every note identifier \<open>i\<close>, a UUID, it matches the paths \<open>u1/i.md\<close> and
  \<open>u1/.metadata/i.json\<close>. Matching is the lexical-range reading of the \<open>gte\<close> and \<open>lt\<close>
  clauses on the \<open>folder\<close> attribute.
\<close>

theorem tenant_filter_isolates_users:
  "(is_address u1 \<and> is_address u2 \<and> u1 \<noteq> u2 \<longrightarrow>
      (\<forall>rest. \<not> filter_matches (folder_attr (u2 @ ''/'' @ rest)) (createUserFolderFilter u1)))
   \<and> (\<forall>i. is_uuid i \<longrightarrow>
          filter_matches (folder_attr (u1 @ ''/'' @ i @ ''.md'')) (createUserFolderFilter u1)
        \<and> filter_matches (folder_attr (u1 @ ''/.metadata/'' @ i @ ''.json''))
            (createUserFolderFilter u1))"
proof (intro conjI impI allI)
  fix rest
  assume h: "is_address u1 \<and> is_address u2 \<and> u1 \<noteq> u2"
  then have "\<not> prefix (u1 @ ''/'') u2" and "\<not> prefix (u2 @ ''/'') u1"
    using is_address_not_nested by blast+
  with h show "\<not> filter_matches (folder_attr (u2 @ ''/'' @ rest)) (createUserFolderFilter u1)"
    using user_filter_isolates by blast
next
  fix i
  assume "is_uuid i"
  then show "filter_matches (folder_attr (u1 @ ''/'' @ i @ ''.md'')) (createUserFolderFilter u1)"
    by (rule user_filter_matches_note)
next
  fix i
  show "filter_matches (folder_attr (u1 @ ''/.metadata/'' @ i @ ''.json''))
          (createUserFolderFilter u1)"
    by (rule user_filter_matches_sidecar)
qed

theorem tenant_filter_isolates_users_witness:
  "is_address ''bob@x.io'' \<and> is_address ''eve@y.io''
   \<and> ''bob@x.io'' \<noteq> ''eve@y.io''
   \<and> is_uuid ''123e4567-e89b-42d3-a456-426614174000''
   \<and> \<not> filter_matches
         (folder_attr (''eve@y.io'' @ ''/'' @ ''123e4567-e89b-42d3-a456-426614174000.md''))
         (createUserFolderFilter ''bob@x.io'')
   \<and> filter_matches
       (folder_attr (''bob@x.io'' @ ''/'' @ ''123e4567-e89b-42d3-a456-426614174000'' @ ''.md''))
       (createUserFolderFilter ''bob@x.io'')
   \<and> filter_matches
       (folder_attr
          (''bob@x.io'' @ ''/.metadata/'' @ ''123e4567-e89b-42d3-a456-426614174000'' @ ''.json''))
       (createUserFolderFilter ''bob@x.io'')"
proof -
  have h1: "is_address ''bob@x.io''" by (simp add: is_address_def)
  have h2: "is_address ''eve@y.io''" by (simp add: is_address_def)
  have h3: "''bob@x.io'' \<noteq> ''eve@y.io''" by simp
  have h4: "is_uuid ''123e4567-e89b-42d3-a456-426614174000''"
    by (simp add: is_uuid_def is_hex_def)
  from tenant_filter_isolates_users [of "''bob@x.io''" "''eve@y.io''"] h1 h2 h3 h4
  show ?thesis by blast
qed

text \<open>
  The upper bound \<open>u/z\<close> is an approximation of the prefix \<open>u/\<close>: a path under \<open>u/\<close>
  whose next character is \<open>z\<close> or later is outside the range. The identifiers of notes
  are UUIDs, which start with a hexadecimal digit.
\<close>

lemma user_filter_misses_late_segment:
  "\<not> filter_matches (folder_attr ''bob@x.io/zebra.md'') (createUserFolderFilter ''bob@x.io'')"
  by (simp add: createUserFolderFilter_def folder_attr_def)

text \<open>
  \<^bold>\<open>C2\<close>. For every user string \<open>u\<close>, \<open>createUserFolderFilter u\<close> is an \<open>and\<close> filter
  with exactly the two clauses \<open>folder \<ge> u/\<close> and \<open>folder < u/z\<close>, in this order, and no
  key or value of its own.
\<close>

theorem createUserFolderFilter_shape:
  "f_type (createUserFolderFilter u) = FAnd
   \<and> f_key (createUserFolderFilter u) = None
   \<and> f_value (createUserFolderFilter u) = None
   \<and> f_filters (createUserFolderFilter u) =
       Some [ AutoRAGFilter FGte (Some ''folder'') (Some (Str (u @ ''/''))) None,
              AutoRAGFilter FLt (Some ''folder'') (Some (Str (u @ ''/z''))) None ]
   \<and> length (the (f_filters (createUserFolderFilter u))) = 2"
  by (simp add: createUserFolderFilter_def)

section \<open>The note tools\<close>

lemma createCustomMetadata_eq:
  "createCustomMetadata entries =
     map (\<lambda>(k, v). (k, JStr (js_String v)))
       (filter (\<lambda>(k, v). v \<noteq> Null \<and> v \<noteq> Undefined) entries)"
  by (induction entries rule: createCustomMetadata.induct) (auto split: js_value.splits)

lemma createCustomMetadata_strings:
  "list_all (\<lambda>(k, v). is_JStr v) (createCustomMetadata entries)"
  by (induction entries rule: createCustomMetadata.induct) (auto split: js_value.splits)

lemma r2_put_issued:
  "issued (fst (r2_put b k bd ct md)) = issued b @ [R2Put k bd ct md]"
  by (simp add: r2_put_def r2_issue_def Let_def split: option.splits)

lemma create_note_first_request:
  "\<exists>rest. issued (fst (create_note user rid date txt title_arg nt NOTES))
     = issued NOTES
       @ R2Put (user @ ''/'' @ rid @ ''.md'') (Raw txt) ''text/markdown''
           (Some (note_customMetadata (note_metadata user rid date txt title_arg nt)))
         # rest"
proof -
  define md where "md = note_customMetadata (note_metadata user rid date txt title_arg nt)"
  define key where "key = user @ ''/'' @ rid @ ''.md''"
  obtain N1 r1 where p1: "r2_put NOTES key (Raw txt) ''text/markdown'' (Some md) = (N1, r1)"
    by (cases "r2_put NOTES key (Raw txt) ''text/markdown'' (Some md)") blast
  have "issued (fst (r2_put NOTES key (Raw txt) ''text/markdown'' (Some md)))
          = issued NOTES @ [R2Put key (Raw txt) ''text/markdown'' (Some md)]"
    by (rule r2_put_issued)
  with p1 have i1: "issued N1 = issued NOTES @ [R2Put key (Raw txt) ''text/markdown'' (Some md)]"
    by simp
  have "\<exists>rest. issued (fst (create_note user rid date txt title_arg nt NOTES))
          = issued N1 @ rest"
  proof (cases r1)
    case (Inl e)
    with p1 have "fst (create_note user rid date txt title_arg nt NOTES) = N1"
      by (simp add: create_note_def Let_def md_def key_def)
    then show ?thesis by simp
  next
    case (Inr u)
    define k2 where "k2 = user @ ''/.metadata/'' @ rid @ ''.json''"
    define bd2 where "bd2 = SidecarJson
            (NoteMetadata.extend (note_metadata user rid date txt title_arg nt)
              (NoteSidecarData.fields (slice0 txt 200) (extractTags txt) (extractLinks txt)))"
    obtain N2 r2 where p2: "r2_put N1 k2 bd2 ''application/json'' None = (N2, r2)"
      by (cases "r2_put N1 k2 bd2 ''application/json'' None") blast
    from p1 p2 Inr have "fst (create_note user rid date txt title_arg nt NOTES) = N2"
      by (cases r2) (simp_all add: create_note_def Let_def md_def key_def k2_def bd2_def)
    moreover have "issued (fst (r2_put N1 k2 bd2 ''application/json'' None))
                     = issued N1 @ [R2Put k2 bd2 ''application/json'' None]"
      by (rule r2_put_issued)
    ultimately show ?thesis using p2 by simp
  qed
  with i1 show ?thesis by (auto simp: md_def key_def)
qed

lemma delete_note_absent_store:
  assumes "map_of (objects NOTES) (user @ ''/'' @ nid @ ''.md'') = None"
  shows "objects (fst (delete_note user nid NOTES)) = objects NOTES"
    and "issued (fst (delete_note user nid NOTES))
           = issued NOTES @ [R2Head (user @ ''/'' @ nid @ ''.md'')]"
  using assms
  by (auto simp: delete_note_def r2_head_def r2_issue_def Let_def split: option.splits)

lemma delete_note_absent_funpow:
  assumes "map_of (objects NOTES) (user @ ''/'' @ nid @ ''.md'') = None"
  shows "objects (((\<lambda>b. fst (delete_note user nid b)) ^^ n) NOTES) = objects NOTES"
proof (induction n)
  case 0
  show ?case by simp
next
  case (Suc n)
  let ?b = "((\<lambda>b. fst (delete_note user nid b)) ^^ n) NOTES"
  from Suc assms have "map_of (objects ?b) (user @ ''/'' @ nid @ ''.md'') = None" by simp
  then have "objects (fst (delete_note user nid ?b)) = objects ?b"
    by (rule delete_note_absent_store)
  with Suc show ?case by simp
qed

text \<open>
  \<^bold>\<open>C4\<close>. When no primary object exists at \<open>user/<id>.md\<close> and the store answers the
  existence check, \<open>delete_note\<close> returns normally, with the "Note not found" payload
  (\<open>success: false\<close>, the note id, the user's folder and a message, and no error
  details as the payload of a failed deletion has); the objects of the store are as
  before, and the only request issued is the \<open>head\<close> on the primary object, so no
  \<open>delete\<close>.
\<close>

theorem delete_note_not_found:
  assumes "map_of (objects NOTES) (user @ ''/'' @ nid @ ''.md'') = None"
    and "rejects NOTES (R2Head (user @ ''/'' @ nid @ ''.md'')) = None"
  shows "delete_note user nid NOTES =
           (NOTES\<lparr>issued := issued NOTES @ [R2Head (user @ ''/'' @ nid @ ''.md'')]\<rparr>,
            Inr (Json \<lparr>success = False,
                       error = Some ''Note not found'',
                       note_id = Some nid,
                       user_folder = Some (user @ ''/''),
                       error_details = None,
                       deleted_note = None,
                       files_deleted = None,
                       message = ''No note found with ID: '' @ nid\<rparr>))"
  using assms
  by (simp add: delete_note_def r2_head_def r2_issue_def Let_def)

theorem delete_note_not_found_witness:
  "map_of (objects empty_store)
     (''bob@x.io'' @ ''/'' @ ''123e4567-e89b-42d3-a456-426614174000'' @ ''.md'') = None
   \<and> rejects empty_store
       (R2Head (''bob@x.io'' @ ''/'' @ ''123e4567-e89b-42d3-a456-426614174000'' @ ''.md'')) = None
   \<and> delete_note ''bob@x.io'' ''123e4567-e89b-42d3-a456-426614174000'' empty_store =
       (empty_store
          \<lparr>issued := [R2Head ''bob@x.io/123e4567-e89b-42d3-a456-426614174000.md'']\<rparr>,
        Inr (Json \<lparr>success = False,
                   error = Some ''Note not found'',
                   note_id = Some ''123e4567-e89b-42d3-a456-426614174000'',
                   user_folder = Some ''bob@x.io/'',
                   error_details = None,
                   deleted_note = None,
                   files_deleted = None,
                   message =
                     ''No note found with ID: 123e4567-e89b-42d3-a456-426614174000''\<rparr>))"
proof -
  have h1: "map_of (objects empty_store)
     (''bob@x.io'' @ ''/'' @ ''123e4567-e89b-42d3-a456-426614174000'' @ ''.md'') = None"
    by (simp add: empty_store_def)
  have h2: "rejects empty_store
       (R2Head (''bob@x.io'' @ ''/'' @ ''123e4567-e89b-42d3-a456-426614174000'' @ ''.md'')) = None"
    by (simp add: empty_store_def)
  show ?thesis
    using h1 h2 delete_note_not_found [OF h1 h2]
    by (simp add: empty_store_def)
qed

text \<open>
  \<^bold>\<open>C10\<close>. When no primary object exists at \<open>user/<id>.md\<close>, whatever else the store
  holds and whichever requests it rejects, the only request \<open>delete_note\<close> issues is the
  \<open>head\<close> on the primary object, and the objects of the store are as before. So a
  sidecar at \<open>user/.metadata/<id>.json\<close> whose note is missing is as it was after any
  number of calls of \<open>delete_note\<close> for that id.
\<close>

theorem delete_note_leaves_orphaned_sidecar:
  assumes "map_of (objects NOTES) (user @ ''/'' @ nid @ ''.md'') = None"
  shows "issued (fst (delete_note user nid NOTES))
           = issued NOTES @ [R2Head (user @ ''/'' @ nid @ ''.md'')]
         \<and> objects (fst (delete_note user nid NOTES)) = objects NOTES
         \<and> (\<forall>n. map_of (objects (((\<lambda>b. fst (delete_note user nid b)) ^^ n) NOTES))
                   (user @ ''/.metadata/'' @ nid @ ''.json'')
                 = map_of (objects NOTES) (user @ ''/.metadata/'' @ nid @ ''.json''))"
  using delete_note_absent_store [OF assms] delete_note_absent_funpow [OF assms]
  by simp

theorem delete_note_leaves_orphaned_sidecar_witness:
  "map_of (objects orphan_store)
     (''bob@x.io'' @ ''/'' @ ''123e4567-e89b-42d3-a456-426614174000'' @ ''.md'') = None
   \<and> issued (fst (delete_note ''bob@x.io'' ''123e4567-e89b-42d3-a456-426614174000''
                    orphan_store))
       = [R2Head ''bob@x.io/123e4567-e89b-42d3-a456-426614174000.md'']
   \<and> map_of
       (objects
          (((\<lambda>b. fst (delete_note ''bob@x.io'' ''123e4567-e89b-42d3-a456-426614174000'' b))
              ^^ 3) orphan_store))
       ''bob@x.io/.metadata/123e4567-e89b-42d3-a456-426614174000.json''
     = Some \<lparr>body = Raw ''{}'', contentType = ''application/json'', customMetadata = []\<rparr>"
proof -
  have h: "map_of (objects orphan_store)
     (''bob@x.io'' @ ''/'' @ ''123e4567-e89b-42d3-a456-426614174000'' @ ''.md'') = None"
    by (simp add: orphan_store_def)
  have s: "map_of (objects orphan_store)
             ''bob@x.io/.metadata/123e4567-e89b-42d3-a456-426614174000.json''
           = Some \<lparr>body = Raw ''{}'', contentType = ''application/json'', customMetadata = []\<rparr>"
    by (simp add: orphan_store_def)
  have i: "issued orphan_store = []" by (simp add: orphan_store_def)
  from delete_note_leaves_orphaned_sidecar [OF h] h s i show ?thesis by simp
qed

text \<open>
  \<^bold>\<open>C5\<close>. \<open>create_note\<close> with the text \<open>Buy milk\<close>, the note type \<open>task\<close> and no title,
  on a store that accepts the two writes and with a UUID from the generator: the response
  carries that UUID as id, the title \<open>Task: Buy milk\<close> that \<open>generateTitle\<close> derives
  from the text, the word count 2, and the two storage paths \<open>user/<id>.md\<close> and
  \<open>user/.metadata/<id>.json\<close>, both under the caller's folder \<open>user/\<close>.
\<close>

theorem create_note_buy_milk:
  assumes "is_uuid rid"
    and "\<And>k bd ct md. rejects NOTES (R2Put k bd ct md) = None"
  shows "\<exists>NOTES' p.
           create_note user rid date ''Buy milk'' None ''task'' NOTES = (NOTES', Inr (Json p))
         \<and> created_id p = rid \<and> is_uuid (created_id p)
         \<and> id' (created_metadata p) = rid
         \<and> title (created_metadata p) = generateTitle ''Buy milk'' (Some ''task'')
         \<and> title (created_metadata p) = ''Task: Buy milk''
         \<and> word_count (created_metadata p) = 2
         \<and> storage_note p = user @ ''/'' @ rid @ ''.md''
         \<and> storage_sidecar p = user @ ''/.metadata/'' @ rid @ ''.json''
         \<and> prefix (user @ ''/'') (storage_note p) \<and> suffix ''.md'' (storage_note p)
         \<and> prefix (user @ ''/'') (storage_sidecar p) \<and> suffix ''.json'' (storage_sidecar p)"
proof -
  have t: "generateTitle ''Buy milk'' (Some ''task'') = ''Task: Buy milk''"
    by (simp add: generateTitle_def first_sentence_def typePrefix_def slice0_def)
  have w: "split_ws ''Buy milk'' = [''Buy'', ''milk'']"
    by (simp add: split_ws_def is_space_def)
  have s1: "suffix ''.md'' (user @ ''/'' @ rid @ ''.md'')"
    by (simp add: suffix_def)
  have s2: "suffix ''.json'' (user @ ''/.metadata/'' @ rid @ ''.json'')"
    by (simp add: suffix_def)
  have p2: "prefix (user @ ''/'') (user @ ''/.metadata/'' @ rid @ ''.json'')"
    by (simp add: prefix_def)
  show ?thesis
    using assms s1 s2 p2
    by (simp add: create_note_def note_metadata_def r2_put_def r2_issue_def Let_def t w)
qed

theorem create_note_buy_milk_witness:
  "is_uuid ''123e4567-e89b-42d3-a456-426614174000''
   \<and> (\<forall>k bd ct md. rejects empty_store (R2Put k bd ct md) = None)
   \<and> (\<exists>NOTES' p.
         create_note ''bob@x.io'' ''123e4567-e89b-42d3-a456-426614174000''
           \<lparr>toISOString = ''2025-11-03T00:00:00.000Z'', getTime = 1762128000000\<rparr>
           ''Buy milk'' None ''task'' empty_store = (NOTES', Inr (Json p))
       \<and> created_id p = ''123e4567-e89b-42d3-a456-426614174000''
       \<and> title (created_metadata p) = ''Task: Buy milk''
       \<and> word_count (created_metadata p) = 2
       \<and> storage_note p = ''bob@x.io/123e4567-e89b-42d3-a456-426614174000.md''
       \<and> storage_sidecar p = ''bob@x.io/.metadata/123e4567-e89b-42d3-a456-426614174000.json'')"
proof -
  have h1: "is_uuid ''123e4567-e89b-42d3-a456-426614174000''"
    by (simp add: is_uuid_def is_hex_def)
  have h2: "\<And>k bd ct md. rejects empty_store (R2Put k bd ct md) = None"
    by (simp add: empty_store_def)
  from create_note_buy_milk [OF h1 h2, of "''bob@x.io''"
      "\<lparr>toISOString = ''2025-11-03T00:00:00.000Z'', getTime = 1762128000000\<rparr>"]
  obtain NOTES' p where
    "create_note ''bob@x.io'' ''123e4567-e89b-42d3-a456-426614174000''
           \<lparr>toISOString = ''2025-11-03T00:00:00.000Z'', getTime = 1762128000000\<rparr>
           ''Buy milk'' None ''task'' empty_store = (NOTES', Inr (Json p))"
    "created_id p = ''123e4567-e89b-42d3-a456-426614174000''"
    "title (created_metadata p) = ''Task: Buy milk''"
    "word_count (created_metadata p) = 2"
    "storage_note p = ''bob@x.io'' @ ''/'' @ ''123e4567-e89b-42d3-a456-426614174000'' @ ''.md''"
    "storage_sidecar p
       = ''bob@x.io'' @ ''/.metadata/'' @ ''123e4567-e89b-42d3-a456-426614174000'' @ ''.json''"
    by blast
  with h1 h2 show ?thesis by simp
qed

text \<open>
  \<^bold>\<open>C9\<close>. Whatever the arguments of \<open>create_note\<close>, the first request it issues is the
  write of the primary object \<open>user/<id>.md\<close>, and every value of the custom metadata
  attached to that write is a string; the ten fields are all there, none of them being
  null or undefined. In general \<open>createCustomMetadata\<close> leaves out the entries whose value
  is null or undefined and turns the value of every other entry into a string.
\<close>

theorem create_note_custom_metadata_strings:
  "(\<exists>md rest.
       drop (length (issued NOTES))
         (issued (fst (create_note user rid date txt title_arg nt NOTES)))
         = R2Put (user @ ''/'' @ rid @ ''.md'') (Raw txt) ''text/markdown'' (Some md) # rest
     \<and> list_all (\<lambda>(k, v). is_JStr v) md
     \<and> map fst md =
         [''id'', ''created_at'', ''created_timestamp'', ''title'', ''note_type'', ''author'',
          ''char_count'', ''word_count'', ''version'', ''context''])
   \<and> list_all (\<lambda>(k, v). is_JStr v) (createCustomMetadata entries)
   \<and> createCustomMetadata entries =
       map (\<lambda>(k, v). (k, JStr (js_String v)))
         (filter (\<lambda>(k, v). v \<noteq> Null \<and> v \<noteq> Undefined) entries)"
proof -
  define m where "m = note_metadata user rid date txt title_arg nt"
  have keys: "map fst (note_customMetadata m) =
         [''id'', ''created_at'', ''created_timestamp'', ''title'', ''note_type'', ''author'',
          ''char_count'', ''word_count'', ''version'', ''context'']"
    by (simp add: note_customMetadata_def metadata_entries_def)
  have strs: "list_all (\<lambda>(k, v). is_JStr v) (note_customMetadata m)"
    unfolding note_customMetadata_def by (rule createCustomMetadata_strings)
  obtain rest where
    "issued (fst (create_note user rid date txt title_arg nt NOTES))
       = issued NOTES
         @ R2Put (user @ ''/'' @ rid @ ''.md'') (Raw txt) ''text/markdown''
             (Some (note_customMetadata m)) # rest"
    unfolding m_def using create_note_first_request by blast
  then have put: "\<exists>rest. drop (length (issued NOTES))
         (issued (fst (create_note user rid date txt title_arg nt NOTES)))
         = R2Put (user @ ''/'' @ rid @ ''.md'') (Raw txt) ''text/markdown''
             (Some (note_customMetadata m)) # rest"
    by simp
  have first: "\<exists>md rest.
       drop (length (issued NOTES))
         (issued (fst (create_note user rid date txt title_arg nt NOTES)))
         = R2Put (user @ ''/'' @ rid @ ''.md'') (Raw txt) ''text/markdown'' (Some md) # rest
     \<and> list_all (\<lambda>(k, v). is_JStr v) md
     \<and> map fst md =
         [''id'', ''created_at'', ''created_timestamp'', ''title'', ''note_type'', ''author'',
          ''char_count'', ''word_count'', ''version'', ''context'']"
  proof -
    from put obtain rest' where
      "drop (length (issued NOTES))
         (issued (fst (create_note user rid date txt title_arg nt NOTES)))
         = R2Put (user @ ''/'' @ rid @ ''.md'') (Raw txt) ''text/markdown''
             (Some (note_customMetadata m)) # rest'" ..
    with keys strs show ?thesis
      by (intro exI [of _ "note_customMetadata m"] exI [of _ rest'] conjI)
  qed
  show ?thesis
    using first createCustomMetadata_strings [of entries] createCustomMetadata_eq [of entries]
    by (intro conjI)
qed

section \<open>The search tools\<close>

lemma filterNoteResults_no_sidecar:
  assumes "r \<in> set (filterNoteResults rs)"
  shows "\<exists>f. filename r = Some f \<and> f \<noteq> []
             \<and> \<not> (\<exists>pre post. f = pre @ ''/.metadata/'' @ post)"
proof -
  from assms have t: "truthy_str (filename r)"
    and n: "\<not> str_includes (the (filename r)) ''/.metadata/''"
    by (simp_all add: filterNoteResults_def)
  from t obtain f where f: "filename r = Some f" "f \<noteq> []"
    by (cases "filename r") auto
  with n have "\<not> str_includes f ''/.metadata/''" by simp
  then have "\<not> (\<exists>pre post. f = pre @ ''/.metadata/'' @ post)"
    unfolding str_includes_iff .
  with f show ?thesis by blast
qed

lemma search_notes_simple_results:
  assumes "snd (search_notes_simple user AI q n) = Inr (Json p)"
  shows "\<exists>rs. simple_results p = filterNoteResults rs"
  using assms
  by (auto simp: search_notes_simple_def Let_def split: sum.splits)

text \<open>
  \<^bold>\<open>C3\<close>. Whatever the search service answers, when \<open>search_notes_simple\<close> responds
  with a results list, every element of the list has a file name, and the file name
  does not contain \<open>/.metadata/\<close>. (When the search fails, the response is an error text
  without a results list.)
\<close>

theorem search_notes_simple_no_sidecar:
  assumes "snd (search_notes_simple user AI q n) = Inr (Json p)"
    and "r \<in> set (simple_results p)"
  shows "\<exists>f. filename r = Some f \<and> \<not> (\<exists>pre post. f = pre @ ''/.metadata/'' @ post)"
proof -
  from assms(1) obtain rs where "simple_results p = filterNoteResults rs"
    using search_notes_simple_results by blast
  with assms(2) have "r \<in> set (filterNoteResults rs)" by simp
  then show ?thesis using filterNoteResults_no_sidecar by blast
qed

theorem search_notes_simple_no_sidecar_witness:
  "snd (search_notes_simple ''bob@x.io'' answering_ai ''milk'' 10) = Inr (Json milk_payload)
   \<and> note_hit \<in> set (simple_results milk_payload)
   \<and> sidecar_hit \<notin> set (simple_results milk_payload)
   \<and> (\<exists>f. filename note_hit = Some f \<and> \<not> (\<exists>pre post. f = pre @ ''/.metadata/'' @ post))"
proof -
  have h1: "snd (search_notes_simple ''bob@x.io'' answering_ai ''milk'' 10)
              = Inr (Json milk_payload)"
    by (simp add: search_notes_simple_def answering_ai_def performAutoRAGSearch_def Let_def
        filterNoteResults_def note_hit_def sidecar_hit_def or_num_def milk_payload_def)
  have h2: "note_hit \<in> set (simple_results milk_payload)"
    by (simp add: milk_payload_def)
  have h3: "sidecar_hit \<notin> set (simple_results milk_payload)"
    by (simp add: milk_payload_def note_hit_def sidecar_hit_def)
  from search_notes_simple_no_sidecar [OF h1 h2] h1 h2 h3 show ?thesis by blast
qed

lemma createAdvancedFilter_clauses:
  "createAdvancedFilter user opts =
     AutoRAGFilter FAnd None None (Some
       (the (f_filters (createUserFolderFilter user))
        @ (case since_timestamp opts of
             None \<Rightarrow> []
           | Some t \<Rightarrow>
               if t = 0 then []
               else [AutoRAGFilter FGte (Some ''timestamp'')
                       (Some (Str (number_toString t))) None])
        @ (case until_timestamp opts of
             None \<Rightarrow> []
           | Some t \<Rightarrow>
               if t = 0 then []
               else [AutoRAGFilter FLte (Some ''timestamp'')
                       (Some (Str (number_toString t))) None])))"
  by (simp add: createAdvancedFilter_def createUserFolderFilter_def Let_def
      split: option.splits)

lemma advanced_filter_time_clauses:
  "createAdvancedFilter user
     \<lparr>since_timestamp =
        (if truthy_num since_days then Some (now - the since_days * 24 * 60 * 60 * 1000)
         else None),
      until_timestamp =
        (if truthy_num until_days then Some (now - the until_days * 24 * 60 * 60 * 1000)
         else None)\<rparr>
   = AutoRAGFilter FAnd None None (Some
       (the (f_filters (createUserFolderFilter user)) @ time_clauses now since_days until_days))"
  by (cases since_days; cases until_days)
     (simp_all add: createAdvancedFilter_clauses time_clauses_def mult.commute)

lemma search_notes_advanced_sent:
  "map filters (fst (search_notes_advanced user AI NOTES now q n since_days until_days))
     = [Some (AutoRAGFilter FAnd None None (Some
         (the (f_filters (createUserFolderFilter user))
          @ time_clauses now since_days until_days)))]"
  unfolding search_notes_advanced_def Let_def advanced_filter_time_clauses
  by (simp split: sum.splits prod.splits)

lemma ai_search_notes_sent:
  "map filters (fst (ai_search_notes user AI now q n since_days until_days))
     = [Some (AutoRAGFilter FAnd None None (Some
         (the (f_filters (createUserFolderFilter user))
          @ time_clauses now since_days until_days)))]"
  unfolding ai_search_notes_def Let_def advanced_filter_time_clauses
  by simp

text \<open>
  So the filter is as \<^bold>\<open>C6\<close> says whenever the timestamps computed from the given
  day offsets are not 0.
\<close>

lemma advanced_filter_sent_nonzero:
  assumes "\<And>d. since_days = Some d \<Longrightarrow> d \<noteq> 0 \<and> now - d * 86400000 \<noteq> 0"
    and "\<And>d. until_days = Some d \<Longrightarrow> d \<noteq> 0 \<and> now - d * 86400000 \<noteq> 0"
  shows "time_clauses now since_days until_days =
           (case since_days of
              None \<Rightarrow> []
            | Some d \<Rightarrow> [AutoRAGFilter FGte (Some ''timestamp'')
                           (Some (Str (number_toString (now - d * 86400000)))) None])
           @ (case until_days of
                None \<Rightarrow> []
              | Some d \<Rightarrow> [AutoRAGFilter FLte (Some ''timestamp'')
                             (Some (Str (number_toString (now - d * 86400000)))) None])"
  using assms by (auto simp: time_clauses_def split: option.splits)

text \<open>
  \<^bold>\<open>C6\<close> at a call time that is midnight UTC to the millisecond, 20395 days after the
  epoch, with a day offset of 20395: the timestamp computed is 0, which
  \<open>createAdvancedFilter\<close> takes for a timestamp that is not given. The filter sent is
  the user's folder filter alone, without the \<open>timestamp\<close> clause of the offset, for
  \<open>since_days\<close> in \<open>search_notes_advanced\<close> and for \<open>until_days\<close> in \<open>ai_search_notes\<close>.
\<close>

theorem advanced_filter_zero_timestamp_dropped:
  "map filters
     (fst (search_notes_advanced ''bob@x.io'' answering_ai notes_store 1762128000000
             ''milk'' 10 (Some 20395) None))
     = [Some (createUserFolderFilter ''bob@x.io'')]
   \<and> map filters
       (fst (ai_search_notes ''bob@x.io'' answering_ai 1762128000000
               ''milk'' 10 None (Some 20395)))
     = [Some (createUserFolderFilter ''bob@x.io'')]"
  by (simp add: search_notes_advanced_sent ai_search_notes_sent time_clauses_def
      createUserFolderFilter_def)

lemma fallback_scan_eq:
  "fallback_scan q listed =
     map (\<lambda>obj. \<lparr>fb_key = listed_key obj,
                  fb_metadata = (case listed_customMetadata obj of None \<Rightarrow> [] | Some m \<Rightarrow> m),
                  fb_score = 1\<rparr>)
       (filter (matchesQuery q) listed)"
  by (induction listed) auto

lemma matchesQuery_iff:
  "matchesQuery q obj \<longleftrightarrow>
     (\<exists>md t pre post. listed_customMetadata obj = Some md \<and> map_of md ''title'' = Some t
        \<and> toLowerCase t = pre @ toLowerCase q @ post)"
  by (auto simp: matchesQuery_def str_includes_iff split: option.splits)

lemma r2_list_keys:
  assumes "snd (r2_list b p cap) = Inr listed" "obj \<in> set listed"
  shows "prefix p (listed_key obj)"
  using assms
  by (force simp: r2_list_def split: option.splits dest!: in_set_takeD)

lemma search_notes_advanced_fallback_run:
  assumes fail: "\<And>params. \<exists>e. performAutoRAGSearch AI params = Inl e"
    and ok: "rejects NOTES (R2List (user @ ''/'') 1000) = None"
    and n: "1 \<le> n"
  shows "\<exists>sent NOTES' p listed.
           search_notes_advanced user AI NOTES now q n since_days until_days
             = (sent, NOTES', Inr (Json (Fallback p)))
         \<and> issued NOTES' = issued NOTES @ [R2List (user @ ''/'') 1000]
         \<and> snd (r2_list NOTES (user @ ''/'') 1000) = Inr listed
         \<and> fallback p = True
         \<and> fb_results p = take (nat n) (fallback_scan q listed)"
proof -
  define params where "params = \<lparr>query = q,
             max_num_results = Some (min (or_num n 10) 50),
             rewrite_query = Some True,
             score_threshold = Some (3 / 10),
             filters = Some (createAdvancedFilter user
               \<lparr>since_timestamp = (if truthy_num since_days
                  then Some (now - the since_days * 24 * 60 * 60 * 1000) else None),
                until_timestamp = (if truthy_num until_days
                  then Some (now - the until_days * 24 * 60 * 60 * 1000) else None)\<rparr>)\<rparr>"
  from fail obtain e where e: "performAutoRAGSearch AI params = Inl e" by blast
  from n have l: "or_num n 10 = n" "\<not> n < 0" by (auto simp: or_num_def)
  show ?thesis
    using e ok l
    by (simp add: search_notes_advanced_def Let_def params_def r2_list_def r2_issue_def
        slice0_def)
qed

text \<open>
  What the fallback of \<open>search_notes_advanced\<close> does: when the call of the search service
  fails, the store answers the listing and the limit is at least 1 (as the schema
  demands), the handler lists the objects under the prefix \<open>user/\<close> (up to 1000 of them)
  and responds with a payload marked \<open>fallback: true\<close>, whose results are the first
  \<open>limit\<close> of the listed objects that come with a title in their metadata of which the
  query is a substring, both taken in lower case. This is about the metadata as the
  listing carries it, not as the store holds it.
\<close>

lemma search_notes_advanced_fallback:
  assumes "\<And>params. \<exists>e. performAutoRAGSearch AI params = Inl e"
    and "rejects NOTES (R2List (user @ ''/'') 1000) = None"
    and "1 \<le> n"
  shows "\<exists>sent NOTES' p listed.
           search_notes_advanced user AI NOTES now q n since_days until_days
             = (sent, NOTES', Inr (Json (Fallback p)))
         \<and> issued NOTES' = issued NOTES @ [R2List (user @ ''/'') 1000]
         \<and> snd (r2_list NOTES (user @ ''/'') 1000) = Inr listed
         \<and> (\<forall>obj \<in> set listed. prefix (user @ ''/'') (listed_key obj))
         \<and> fallback p = True
         \<and> fb_results p =
             take (nat n)
               (map (\<lambda>obj. \<lparr>fb_key = listed_key obj,
                            fb_metadata =
                              (case listed_customMetadata obj of None \<Rightarrow> [] | Some m \<Rightarrow> m),
                            fb_score = 1\<rparr>)
                  (filter (\<lambda>obj. \<exists>md t pre post.
                              listed_customMetadata obj = Some md
                            \<and> map_of md ''title'' = Some t
                            \<and> toLowerCase t = pre @ toLowerCase q @ post) listed))
         \<and> int (length (fb_results p)) \<le> n"
proof -
  from search_notes_advanced_fallback_run [OF assms]
  obtain sent NOTES' p listed where
    run: "search_notes_advanced user AI NOTES now q n since_days until_days
             = (sent, NOTES', Inr (Json (Fallback p)))"
    and iss: "issued NOTES' = issued NOTES @ [R2List (user @ ''/'') 1000]"
    and lst: "snd (r2_list NOTES (user @ ''/'') 1000) = Inr listed"
    and fb: "fallback p = True"
    and res: "fb_results p = take (nat n) (fallback_scan q listed)"
    by blast
  have keys: "\<forall>obj \<in> set listed. prefix (user @ ''/'') (listed_key obj)"
    using r2_list_keys [OF lst] by blast
  have m: "matchesQuery q = (\<lambda>obj. \<exists>md t pre post.
                              listed_customMetadata obj = Some md
                            \<and> map_of md ''title'' = Some t
                            \<and> toLowerCase t = pre @ toLowerCase q @ post)"
    by (rule ext) (rule matchesQuery_iff)
  have res': "fb_results p =
             take (nat n)
               (map (\<lambda>obj. \<lparr>fb_key = listed_key obj,
                            fb_metadata =
                              (case listed_customMetadata obj of None \<Rightarrow> [] | Some m \<Rightarrow> m),
                            fb_score = 1\<rparr>)
                  (filter (\<lambda>obj. \<exists>md t pre post.
                              listed_customMetadata obj = Some md
                            \<and> map_of md ''title'' = Some t
                            \<and> toLowerCase t = pre @ toLowerCase q @ post) listed))"
    unfolding res fallback_scan_eq m ..
  from res assms(3) have len: "int (length (fb_results p)) \<le> n" by simp
  from run iss lst keys fb res' len show ?thesis by blast
qed

lemma search_notes_advanced_fallback_example:
  "(\<forall>params. \<exists>e. performAutoRAGSearch failing_ai params = Inl e)
   \<and> rejects notes_store (R2List (''bob@x.io'' @ ''/'') 1000) = None
   \<and> (1::int) \<le> 10
   \<and> snd (snd (search_notes_advanced ''bob@x.io'' failing_ai notes_store 1762128000000
                  ''milk'' 10 None None))
     = Inr (Json (Fallback
         \<lparr>fb_results =
            [\<lparr>fb_key = ''bob@x.io/123e4567-e89b-42d3-a456-426614174000.md'',
              fb_metadata = [(''id'', ''123e4567-e89b-42d3-a456-426614174000''),
                             (''title'', ''Task: Buy MILK'')],
              fb_score = 1\<rparr>],
          fb_total = 1, fallback = True, fb_since_days = None, fb_until_days = None,
          fb_error = ''AutoRAG unavailable''\<rparr>))
   \<and> (\<exists>sent NOTES' p.
         search_notes_advanced ''bob@x.io'' failing_ai notes_store 1762128000000
           ''milk'' 10 None None = (sent, NOTES', Inr (Json (Fallback p)))
       \<and> fallback p = True \<and> int (length (fb_results p)) \<le> 10)"
proof -
  have h1: "\<And>params. \<exists>e. performAutoRAGSearch failing_ai params = Inl e"
    by (simp add: performAutoRAGSearch_def failing_ai_def)
  have h2: "rejects notes_store (R2List (''bob@x.io'' @ ''/'') 1000) = None"
    by (simp add: notes_store_def)
  have h3: "(1::int) \<le> 10" by simp
  have ev: "snd (snd (search_notes_advanced ''bob@x.io'' failing_ai notes_store 1762128000000
                  ''milk'' 10 None None))
     = Inr (Json (Fallback
         \<lparr>fb_results =
            [\<lparr>fb_key = ''bob@x.io/123e4567-e89b-42d3-a456-426614174000.md'',
              fb_metadata = [(''id'', ''123e4567-e89b-42d3-a456-426614174000''),
                             (''title'', ''Task: Buy MILK'')],
              fb_score = 1\<rparr>],
          fb_total = 1, fallback = True, fb_since_days = None, fb_until_days = None,
          fb_error = ''AutoRAG unavailable''\<rparr>))"
    by (simp add: search_notes_advanced_def failing_ai_def performAutoRAGSearch_def Let_def
        notes_store_def r2_list_def r2_issue_def matchesQuery_def toLowerCase_def
        toLowerCase_char_def or_num_def slice0_def createAdvancedFilter_def)
  from search_notes_advanced_fallback [OF h1 h2 h3, of 1762128000000 "''milk''" None None]
  have "\<exists>sent NOTES' p.
         search_notes_advanced ''bob@x.io'' failing_ai notes_store 1762128000000
           ''milk'' 10 None None = (sent, NOTES', Inr (Json (Fallback p)))
       \<and> fallback p = True \<and> int (length (fb_results p)) \<le> 10"
    by blast
  with h1 h2 h3 ev show ?thesis by blast
qed

lemma fallback_scan_without_metadata:
  assumes "\<forall>obj \<in> set listed. listed_customMetadata obj = None"
  shows "fallback_scan q listed = []"
  using assms by (induction listed) (auto simp: matchesQuery_def)

text \<open>
  The listing of a worker of today carries no custom metadata, since the handler does not
  ask for it; then the fallback keeps nothing, whatever the titles in the store.
\<close>

lemma search_notes_advanced_fallback_keeps_nothing:
  assumes fail: "\<And>params. \<exists>e. performAutoRAGSearch AI params = Inl e"
    and ok: "rejects NOTES (R2List (user @ ''/'') 1000) = None"
    and plain: "\<not> list_sends_metadata NOTES"
  shows "\<exists>sent NOTES' p.
           search_notes_advanced user AI NOTES now q n since_days until_days
             = (sent, NOTES', Inr (Json (Fallback p)))
         \<and> fb_results p = [] \<and> fb_total p = 0"
proof -
  define params where "params = \<lparr>query = q,
             max_num_results = Some (min (or_num n 10) 50),
             rewrite_query = Some True,
             score_threshold = Some (3 / 10),
             filters = Some (createAdvancedFilter user
               \<lparr>since_timestamp = (if truthy_num since_days
                  then Some (now - the since_days * 24 * 60 * 60 * 1000) else None),
                until_timestamp = (if truthy_num until_days
                  then Some (now - the until_days * 24 * 60 * 60 * 1000) else None)\<rparr>)\<rparr>"
  from fail obtain e where e: "performAutoRAGSearch AI params = Inl e" by blast
  obtain listed where l: "snd (r2_list NOTES (user @ ''/'') 1000) = Inr listed"
    using ok by (simp add: r2_list_def)
  from l ok plain have "\<forall>obj \<in> set listed. listed_customMetadata obj = None"
    by (auto simp: r2_list_def)
  then have scan: "fallback_scan q listed = []"
    by (rule fallback_scan_without_metadata)
  obtain N1 where r: "r2_list NOTES (user @ ''/'') 1000 = (N1, Inr listed)"
    using l by (cases "r2_list NOTES (user @ ''/'') 1000") simp
  show ?thesis
    using e r scan
    by (simp add: search_notes_advanced_def Let_def params_def slice0_def)
qed

text \<open>
  \<^bold>\<open>C8\<close> at a store of which the first note has the title \<open>Task: Buy MILK\<close> in its custom
  metadata, listed as a worker of today lists it, with the query \<open>milk\<close> while the search
  service is down: the note is under the caller's prefix and its title contains the
  query when both are taken in lower case, yet the fallback keeps nothing.
\<close>

theorem fallback_misses_stored_title:
  "map_option customMetadata
       (map_of (objects plain_listing_store)
          ''bob@x.io/123e4567-e89b-42d3-a456-426614174000.md'')
     = Some [(''id'', ''123e4567-e89b-42d3-a456-426614174000''),
             (''title'', ''Task: Buy MILK'')]
   \<and> prefix ''bob@x.io/'' ''bob@x.io/123e4567-e89b-42d3-a456-426614174000.md''
   \<and> str_includes (toLowerCase ''Task: Buy MILK'') (toLowerCase ''milk'')
   \<and> snd (snd (search_notes_advanced ''bob@x.io'' failing_ai plain_listing_store
                  1762128000000 ''milk'' 10 None None))
     = Inr (Json (Fallback
         \<lparr>fb_results = [], fb_total = 0, fallback = True,
          fb_since_days = None, fb_until_days = None,
          fb_error = ''AutoRAG unavailable''\<rparr>))"
proof -
  have m: "map_option customMetadata
       (map_of (objects plain_listing_store)
          ''bob@x.io/123e4567-e89b-42d3-a456-426614174000.md'')
     = Some [(''id'', ''123e4567-e89b-42d3-a456-426614174000''),
             (''title'', ''Task: Buy MILK'')]"
    by (simp add: plain_listing_store_def notes_store_def)
  have p: "prefix ''bob@x.io/'' ''bob@x.io/123e4567-e89b-42d3-a456-426614174000.md''"
    by simp
  have t: "str_includes (toLowerCase ''Task: Buy MILK'') (toLowerCase ''milk'')"
    by (simp add: toLowerCase_def toLowerCase_char_def)
  have r: "snd (snd (search_notes_advanced ''bob@x.io'' failing_ai plain_listing_store
                  1762128000000 ''milk'' 10 None None))
     = Inr (Json (Fallback
         \<lparr>fb_results = [], fb_total = 0, fallback = True,
          fb_since_days = None, fb_until_days = None,
          fb_error = ''AutoRAG unavailable''\<rparr>))"
    by (simp add: search_notes_advanced_def failing_ai_def performAutoRAGSearch_def Let_def
        plain_listing_store_def notes_store_def r2_list_def r2_issue_def matchesQuery_def
        or_num_def slice0_def createAdvancedFilter_def)
  from m p t r show ?thesis by (intro conjI)
qed

section \<open>The OAuth callback\<close>

lemma denial_page_has_email:
  "\<exists>pre post. denial_page domain email = pre @ email @ post"
  unfolding denial_page_def page_line_def by (metis append.assoc)

text \<open>
  \<^bold>\<open>C7\<close>. With a hosted domain configured (the configured allowlist domain of the
  claim), for a login that gets as far as the profile
  (the state parameter decodes to a request with a client id, the code is there, the
  token endpoint gives an access token and the user-info endpoint the profile): when the
  profile has no hosted domain or one that differs from the configured domain, the
  callback responds with status 403 and the denial page, which contains the e-mail
  address of the profile, and it makes no call of \<open>completeAuthorization\<close>.
\<close>

theorem callback_domain_denied:
  assumes "GOOGLE_HOSTED_DOMAIN env = Some domain" and "domain \<noteq> []"
    and "query_state req = Some rawState" and "rawState \<noteq> []"
    and "decode_state env rawState = Inr oauthReqInfo"
    and "truthy_str (clientId oauthReqInfo)"
    and "query_code req = Some code" and "code \<noteq> []"
    and "\<And>treq. token_endpoint env treq = Ok accessToken"
    and "userinfo_endpoint env accessToken = Ok userInfo"
    and "ui_hd userInfo = None \<or> ui_hd userInfo \<noteq> Some domain"
  shows "fst (callback env req) = []
         \<and> snd (callback env req) =
             Inr \<lparr>status = 403,
                  response_body = denial_page domain (ui_email userInfo),
                  response_headers = [(''Content-Type'', ''text/html'')]\<rparr>
         \<and> (\<exists>pre post. denial_page domain (ui_email userInfo)
                          = pre @ ui_email userInfo @ post)"
proof -
  have cb: "callback env req =
           ([], Inr \<lparr>status = 403,
                     response_body = denial_page domain (ui_email userInfo),
                     response_headers = [(''Content-Type'', ''text/html'')]\<rparr>)"
    using assms
    by (auto simp add: callback_def fetchUpstreamAuthToken_def)
  with denial_page_has_email [of domain "ui_email userInfo"] show ?thesis by simp
qed

theorem callback_domain_denied_witness:
  "GOOGLE_HOSTED_DOMAIN restricted_env = Some ''x.io''
   \<and> decode_state restricted_env login_state
       = Inr \<lparr>clientId = Some ''mcp-client'', scope = [''email'']\<rparr>
   \<and> userinfo_endpoint restricted_env ''token-1''
       = Ok \<lparr>ui_id = ''42'', ui_email = ''eve@y.io'', ui_name = ''Eve'', ui_hd = Some ''y.io''\<rparr>
   \<and> fst (callback restricted_env login_request) = []
   \<and> snd (callback restricted_env login_request) =
       Inr \<lparr>status = 403,
            response_body = denial_page ''x.io'' ''eve@y.io'',
            response_headers = [(''Content-Type'', ''text/html'')]\<rparr>
   \<and> (\<exists>pre post. denial_page ''x.io'' ''eve@y.io'' = pre @ ''eve@y.io'' @ post)"
proof -
  define profile where
    "profile = \<lparr>ui_id = ''42'', ui_email = ''eve@y.io'', ui_name = ''Eve'', ui_hd = Some ''y.io''\<rparr>"
  have h1: "GOOGLE_HOSTED_DOMAIN restricted_env = Some ''x.io''"
    by (simp add: restricted_env_def)
  have h2: "''x.io'' \<noteq> []" by simp
  have h3: "query_state login_request = Some login_state" by (simp add: login_request_def)
  have h4: "login_state \<noteq> []" by (simp add: login_state_def)
  have h5: "decode_state restricted_env login_state
              = Inr \<lparr>clientId = Some ''mcp-client'', scope = [''email'']\<rparr>"
    by (simp add: decode_state_def restricted_env_def login_state_def)
  have h6: "truthy_str (clientId \<lparr>clientId = Some ''mcp-client'', scope = [''email'']\<rparr>)"
    by simp
  have h7: "query_code login_request = Some ''xyz''" by (simp add: login_request_def)
  have h8: "''xyz'' \<noteq> []" by simp
  have h9: "\<And>treq. token_endpoint restricted_env treq = Ok ''token-1''"
    by (simp add: restricted_env_def)
  have h10: "userinfo_endpoint restricted_env ''token-1'' = Ok profile"
    by (simp add: restricted_env_def profile_def)
  have h11: "ui_hd profile = None \<or> ui_hd profile \<noteq> Some ''x.io''"
    by (simp add: profile_def)
  from callback_domain_denied [OF h1 h2 h3 h4 h5 h6 h7 h8 h9 h10 h11] h1 h5 h10
  show ?thesis by (simp add: profile_def)
qed

end
